theory Spec2Isabelle
  imports Main
begin

section \<open>Configuration (config.ts)\<close>

text \<open>
  The configuration object of \<^verbatim>\<open>config.ts\<close>. The board ids, column ids and retry
  settings are the literals of the source. \<^verbatim>\<open>dryRun\<close> is read from the process
  environment (\<^verbatim>\<open>process.env.DRY_RUN === 'true'\<close>), so it is the one argument of
  \<open>config\<close>. The token, the URL and the port do not influence any function modelled here.
\<close>

record Boards =
  subitem :: int
  feature :: int
  main :: int

record Columns =
  subitemToMain :: string
  mainToFeature :: string

record Retry =
  maxAttempts :: nat
  baseDelayMs :: nat
  maxDelayMs :: nat

record Config =
  dryRun :: bool
  boards :: Boards
  columns :: Columns
  retry :: Retry

definition config :: "bool \<Rightarrow> Config" where
  "config envDryRun =
     \<lparr> dryRun = envDryRun,
       boards = \<lparr> subitem = 18041802160, feature = 18041801957, main = 18012438587 \<rparr>,
       columns = \<lparr> subitemToMain = ''board_relation_mkw4vrjt'',
                   mainToFeature = ''board_relation_mkw8vvdh'' \<rparr>,
       retry = \<lparr> maxAttempts = 3, baseDelayMs = 1000, maxDelayMs = 10000 \<rparr> \<rparr>"

section \<open>JavaScript values\<close>

text \<open>
  The values \<^verbatim>\<open>JSON.parse\<close> can produce, together with \<^verbatim>\<open>undefined\<close> (the
  result of reading a missing property) and what \<^verbatim>\<open>parseInt\<close> can return beside an
  integer: \<^verbatim>\<open>NaN\<close> and the two infinities. Numbers are the integers that a
  JavaScript number represents exactly, which covers every item and board id. An object is
  the list of its own properties; a lookup takes the first binding of a key.
\<close>

datatype jsval =
    JUndefined
  | JNull
  | JBool bool
  | JNum int
  | JNaN
  | JInfinity
  | JNegInfinity
  | JStr string
  | JArr "jsval list"
  | JObj "(string \<times> jsval) list"

datatype error =
    FetchError string               \<comment> \<open>\<^verbatim>\<open>fetch\<close> rejected\<close>
  | HttpError nat string            \<comment> \<open>\<^verbatim>\<open>HTTP ${status}: ${statusText}\<close>\<close>
  | InvalidJsonBody                 \<comment> \<open>\<^verbatim>\<open>response.json()\<close> rejected\<close>
  | GraphQLErrors "string list"     \<comment> \<open>\<^verbatim>\<open>GraphQL errors: \<close> and the messages joined\<close>
  | NoDataInResponse                \<comment> \<open>\<^verbatim>\<open>No data in response\<close>\<close>
  | UnknownError                    \<comment> \<open>\<^verbatim>\<open>Unknown error during API call\<close>\<close>
  | SyntaxError                     \<comment> \<open>thrown by \<^verbatim>\<open>JSON.parse\<close>\<close>
  | TypeError                       \<comment> \<open>property read on \<^verbatim>\<open>null\<close> or \<^verbatim>\<open>undefined\<close>\<close>

fun truthy :: "jsval \<Rightarrow> bool" where
  "truthy JUndefined = False"
| "truthy JNull = False"
| "truthy (JBool b) = b"
| "truthy (JNum n) = (n \<noteq> 0)"
| "truthy JNaN = False"
| "truthy JInfinity = True"
| "truthy JNegInfinity = True"
| "truthy (JStr s) = (s \<noteq> [])"
| "truthy (JArr xs) = True"
| "truthy (JObj kvs) = True"

fun isArray :: "jsval \<Rightarrow> bool" where
  "isArray (JArr xs) = True"
| "isArray v = False"

fun elements :: "jsval \<Rightarrow> jsval list" where
  "elements (JArr xs) = xs"
| "elements v = []"

text \<open>
  \<^verbatim>\<open>v.k\<close> for a key \<open>k\<close> that is neither an array index nor a built-in property (the
  source reads only \<^verbatim>\<open>linkedPulseIds\<close> and \<^verbatim>\<open>linkedPulseId\<close>): a TypeError on
  \<^verbatim>\<open>null\<close> and \<^verbatim>\<open>undefined\<close>, the property's value on an object that has it,
  \<^verbatim>\<open>undefined\<close> otherwise. \<open>optProp\<close> is the optional chaining \<^verbatim>\<open>v?.k\<close>.
\<close>

fun getProp :: "jsval \<Rightarrow> string \<Rightarrow> error + jsval" where
  "getProp JUndefined k = Inl TypeError"
| "getProp JNull k = Inl TypeError"
| "getProp (JObj kvs) k = Inr (case map_of kvs k of None \<Rightarrow> JUndefined | Some v \<Rightarrow> v)"
| "getProp v k = Inr JUndefined"

fun optProp :: "jsval \<Rightarrow> string \<Rightarrow> jsval" where
  "optProp (JObj kvs) k = (case map_of kvs k of None \<Rightarrow> JUndefined | Some v \<Rightarrow> v)"
| "optProp v k = JUndefined"

text \<open>
  \<^verbatim>\<open>xs.map(f)\<close> for a callback that may throw: the first exception ends the map.
\<close>

fun mapThrowing :: "('a \<Rightarrow> error + 'b) \<Rightarrow> 'a list \<Rightarrow> error + 'b list" where
  "mapThrowing f [] = Inr []"
| "mapThrowing f (x # xs) =
     (case f x of
        Inl e \<Rightarrow> Inl e
      | Inr y \<Rightarrow> (case mapThrowing f xs of Inl e \<Rightarrow> Inl e | Inr ys \<Rightarrow> Inr (y # ys)))"

text \<open>
  SameValueZero, the comparison of \<^verbatim>\<open>Array.prototype.includes\<close> and of
  \<^verbatim>\<open>Set\<close>, between two values that are not the same object: primitives are compared
  by value (\<^verbatim>\<open>NaN\<close> equals \<^verbatim>\<open>NaN\<close>), arrays and objects by reference, and two
  values parsed at different places are never the same reference.
\<close>

fun isReference :: "jsval \<Rightarrow> bool" where
  "isReference (JArr xs) = True"
| "isReference (JObj kvs) = True"
| "isReference v = False"

definition sameValueZero :: "jsval \<Rightarrow> jsval \<Rightarrow> bool" where
  "sameValueZero a b = (\<not> isReference a \<and> \<not> isReference b \<and> a = b)"

definition includes_js :: "jsval list \<Rightarrow> jsval \<Rightarrow> bool" where
  "includes_js xs v = list_ex (\<lambda>x. sameValueZero x v) xs"

text \<open>
  \<^verbatim>\<open>[...new Set(xs)]\<close>: the elements are added in order, an element already in the set
  is dropped, and the spread reads the set in insertion order.
\<close>

definition setAdd :: "jsval list \<Rightarrow> jsval \<Rightarrow> jsval list" where
  "setAdd s v = (if includes_js s v then s else s @ [v])"

definition newSet :: "jsval list \<Rightarrow> jsval list" where
  "newSet xs = foldl setAdd [] xs"

text \<open>
  \<^verbatim>\<open>parseInt(s, 10)\<close> is a built-in of the language, as \<^verbatim>\<open>JSON.parse\<close> is, and
  is a parameter of the functions that call it: any function from the text to the number
  it denotes, \<^verbatim>\<open>NaN\<close> where the text starts with no integer.
\<close>

type_synonym intParser = "string \<Rightarrow> jsval"

section \<open>The remote API (monday-client.ts)\<close>

text \<open>
  A request is the GraphQL document together with its variables: one constructor for each
  of the three documents of the source, carrying the variables. Item and board ids are
  sent as \<^verbatim>\<open>String(id)\<close>; the write carries the list that the source hands to
  \<^verbatim>\<open>JSON.stringify\<close> as \<^verbatim>\<open>item_ids\<close>.
\<close>

datatype request =
    GetSubitemWithParent int
  | GetMainItemLinks int
  | UpdateMainItemLinks int int string "jsval list"
      \<comment> \<open>board id, item id, column id, \<^verbatim>\<open>item_ids\<close>\<close>

fun isWrite :: "request \<Rightarrow> bool" where
  "isWrite (UpdateMainItemLinks b i c v) = True"
| "isWrite r = False"

text \<open>
  The interfaces of the responses, as the source declares them. A query response
  \<^verbatim>\<open>{ items: [...] }\<close> is its list of items, and the response of the mutation is the
  id it returns.
\<close>

datatype ColumnValue = ColumnValue (col_id: string) (col_value: "string option") (col_type: string)

datatype ParentItem = ParentItem (parent_id: string) (parent_board_id: string)

datatype SubitemWithParent =
  SubitemWithParent (sub_id: string) (sub_name: string) (parent_item: "ParentItem option")
    (sub_column_values: "ColumnValue list")

datatype MainItemRelations =
  MainItemRelations (main_id: string) (main_name: string) (column_values: "ColumnValue list")

datatype 'd GraphQLResponse =
  GraphQLResponse (data: "'d option") (errors: "string list option")

text \<open>
  What one call of \<^verbatim>\<open>fetch\<close> followed by \<^verbatim>\<open>response.json()\<close> can do: reject, or
  answer with a status and a body that is or is not JSON of the declared shape.
\<close>

datatype 'd fetch_result =
    Rejected string
  | Responded (ok: bool) (status: nat) (statusText: string) (body: "'d GraphQLResponse option")

text \<open>
  The state of a run is the list of the requests sent so far. The remote side is any
  function from that history and the request to the outcome of the call, one for each
  declared response type, so the answers may change from one attempt to the next and may
  depend on every earlier read and write.
\<close>

type_synonym trace = "request list"

type_synonym 'd responder = "trace \<Rightarrow> request \<Rightarrow> 'd fetch_result"

record server =
  subitemResponder :: "SubitemWithParent list responder"
  mainItemResponder :: "MainItemRelations list responder"
  changeResponder :: "string responder"

definition fetch :: "'d responder \<Rightarrow> request \<Rightarrow> trace \<Rightarrow> 'd fetch_result \<times> trace" where
  "fetch respond req t = (respond t req, t @ [req])"

text \<open>The body of the \<^verbatim>\<open>try\<close> block of \<^verbatim>\<open>mondayQuery\<close>, given the outcome of the call.\<close>

definition attemptResult :: "'d fetch_result \<Rightarrow> error + 'd" where
  "attemptResult r =
     (case r of
        Rejected msg \<Rightarrow> Inl (FetchError msg)
      | Responded isOk st stText b \<Rightarrow>
          if \<not> isOk then Inl (HttpError st stText)
          else (case b of
                  None \<Rightarrow> Inl InvalidJsonBody
                | Some result \<Rightarrow>
                    (case (case errors result of None \<Rightarrow> [] | Some es \<Rightarrow> es) of
                       m # ms \<Rightarrow> Inl (GraphQLErrors (m # ms))
                     | [] \<Rightarrow>
                         (case data result of
                            None \<Rightarrow> Inl NoDataInResponse
                          | Some d \<Rightarrow> Inr d))))"

text \<open>
  The retry loop of \<^verbatim>\<open>mondayQuery\<close>, from \<open>attempt\<close> on. The delay between two
  attempts changes no state and is left out.
\<close>

function mondayQueryFrom ::
  "Config \<Rightarrow> 'd responder \<Rightarrow> request \<Rightarrow> nat \<Rightarrow> error option \<Rightarrow> trace \<Rightarrow> (error + 'd) \<times> trace"
where
  "mondayQueryFrom cfg respond req attempt lastError t =
     (if attempt \<le> maxAttempts (retry cfg) then
        (case attemptResult (fst (fetch respond req t)) of
           Inr d \<Rightarrow> (Inr d, snd (fetch respond req t))
         | Inl e \<Rightarrow> mondayQueryFrom cfg respond req (attempt + 1) (Some e) (snd (fetch respond req t)))
      else (Inl (case lastError of Some e \<Rightarrow> e | None \<Rightarrow> UnknownError), t))"
  by pat_completeness auto
termination
  by (relation "measure (\<lambda>(cfg, respond, req, attempt, lastError, t).
                  maxAttempts (retry cfg) + 1 - attempt)") auto

definition mondayQuery ::
  "Config \<Rightarrow> 'd responder \<Rightarrow> request \<Rightarrow> trace \<Rightarrow> (error + 'd) \<times> trace" where
  "mondayQuery cfg respond req t = mondayQueryFrom cfg respond req 1 None t"

text \<open>
  \<^verbatim>\<open>getSubitemWithParent\<close>: the first item of the answer, or \<^verbatim>\<open>null\<close>. An error of
  \<^verbatim>\<open>mondayQuery\<close> is not caught here.
\<close>

definition getSubitemWithParent ::
  "Config \<Rightarrow> server \<Rightarrow> int \<Rightarrow> trace \<Rightarrow> (error + SubitemWithParent option) \<times> trace" where
  "getSubitemWithParent cfg srv subitemId t =
     (case mondayQuery cfg (subitemResponder srv) (GetSubitemWithParent subitemId) t of
        (Inl e, t') \<Rightarrow> (Inl e, t')
      | (Inr items, t') \<Rightarrow> (Inr (case items of [] \<Rightarrow> None | x # xs \<Rightarrow> Some x), t'))"

text \<open>
  The \<^verbatim>\<open>try\<close> block that \<^verbatim>\<open>getMainItemLinkedIds\<close> and \<^verbatim>\<open>parseLinkedItemIds\<close>
  share word for word. \<^verbatim>\<open>JSON.parse\<close> is a parameter: \<open>None\<close> is its SyntaxError.
  \<open>Inr (Some ids)\<close> is the \<^verbatim>\<open>return\<close> inside the \<^verbatim>\<open>if\<close>, \<open>Inr None\<close> leaves the
  block without returning, \<open>Inl e\<close> is an exception thrown inside the block.
\<close>

type_synonym parser = "string \<Rightarrow> jsval option"

definition relationTryBlock :: "parser \<Rightarrow> string \<Rightarrow> error + jsval list option" where
  "relationTryBlock JSON_parse s =
     (case JSON_parse s of
        None \<Rightarrow> Inl SyntaxError
      | Some parsed \<Rightarrow>
          if truthy (optProp parsed ''linkedPulseIds'') \<and> isArray (optProp parsed ''linkedPulseIds'')
          then (case mapThrowing (\<lambda>item. getProp item ''linkedPulseId'')
                       (elements (optProp parsed ''linkedPulseIds'')) of
                  Inl e \<Rightarrow> Inl e
                | Inr ids \<Rightarrow> Inr (Some ids))
          else Inr None)"

text \<open>
  \<^verbatim>\<open>parseLinkedItemIds\<close>. The result is a sum so that an exception leaving the function
  would be a value \<open>Inl e\<close>; the \<^verbatim>\<open>catch\<close> clause swallows what the block throws.
\<close>

definition parseLinkedItemIds :: "parser \<Rightarrow> string option \<Rightarrow> error + jsval list" where
  "parseLinkedItemIds JSON_parse columnValue =
     (case columnValue of
        None \<Rightarrow> Inr []
      | Some s \<Rightarrow>
          if s = [] then Inr []
          else (case relationTryBlock JSON_parse s of
                  Inr (Some ids) \<Rightarrow> Inr ids
                | Inr None \<Rightarrow> Inr []
                | Inl e \<Rightarrow> Inr []))"

text \<open>
  \<^verbatim>\<open>getMainItemLinkedIds\<close> after its remote call: the first item, its relation column,
  and the same \<^verbatim>\<open>try\<close> block, whose \<^verbatim>\<open>catch\<close> clause only logs a warning.
\<close>

definition linkedIdsOfItems ::
  "Config \<Rightarrow> parser \<Rightarrow> MainItemRelations list \<Rightarrow> error + jsval list" where
  "linkedIdsOfItems cfg JSON_parse items =
     (case items of
        [] \<Rightarrow> Inr []
      | mainItem # rest \<Rightarrow>
          (case find (\<lambda>col. col_id col = mainToFeature (columns cfg)) (column_values mainItem) of
             None \<Rightarrow> Inr []
           | Some relationColumn \<Rightarrow>
               (case col_value relationColumn of
                  None \<Rightarrow> Inr []
                | Some s \<Rightarrow>
                    if s = [] then Inr []
                    else (case relationTryBlock JSON_parse s of
                            Inr (Some ids) \<Rightarrow> Inr ids
                          | Inr None \<Rightarrow> Inr []
                          | Inl e \<Rightarrow> Inr []))))"

definition getMainItemLinkedIds ::
  "Config \<Rightarrow> parser \<Rightarrow> server \<Rightarrow> int \<Rightarrow> trace \<Rightarrow> (error + jsval list) \<times> trace" where
  "getMainItemLinkedIds cfg JSON_parse srv mainItemId t =
     (case mondayQuery cfg (mainItemResponder srv) (GetMainItemLinks mainItemId) t of
        (Inl e, t') \<Rightarrow> (Inl e, t')
      | (Inr items, t') \<Rightarrow> (linkedIdsOfItems cfg JSON_parse items, t'))"

definition updateMainItemLinks ::
  "Config \<Rightarrow> server \<Rightarrow> int \<Rightarrow> int \<Rightarrow> jsval list \<Rightarrow> trace \<Rightarrow> (error + unit) \<times> trace" where
  "updateMainItemLinks cfg srv mainItemId boardId linkedItemIds t =
     (case mondayQuery cfg (changeResponder srv)
             (UpdateMainItemLinks boardId mainItemId (mainToFeature (columns cfg)) linkedItemIds) t of
        (Inl e, t') \<Rightarrow> (Inl e, t')
      | (Inr d, t') \<Rightarrow> (Inr (), t'))"

section \<open>The webhook handler (webhook-handler.ts)\<close>

text \<open>
  The fields of the event that the handler reads. \<^verbatim>\<open>value.linkedPulseIds\<close> is a list of
  wrapped ids.
\<close>

datatype LinkedPulse = LinkedPulse (linkedPulseId: int)

record EventValue =
  linkedPulseIds :: "LinkedPulse list option"

record Event =
  boardId :: int
  pulseId :: int
  subitemId :: "int option"
  parentItemId :: "int option"
  parentItemBoardId :: "int option"
  columnId :: string
  eventValue :: "EventValue option"

datatype payload = WebhookChallenge string | WebhookEvent Event

text \<open>The messages of the handler; the last one carries the two counts it prints.\<close>

datatype message =
    EventFromUnexpectedBoard              \<comment> \<open>\<^verbatim>\<open>Event from unexpected board\<close>\<close>
  | EventForNonTargetColumn               \<comment> \<open>\<^verbatim>\<open>Event for non-target column\<close>\<close>
  | NoLinkedItemsToProcess                \<comment> \<open>\<^verbatim>\<open>No linked items to process\<close>\<close>
  | FailedToFetchSubitem                  \<comment> \<open>\<^verbatim>\<open>Failed to fetch subitem\<close>\<close>
  | SubitemHasNoParentItem                \<comment> \<open>\<^verbatim>\<open>Subitem has no parent item\<close>\<close>
  | ParentItemNotFromExpectedFeatureBoard \<comment> \<open>\<^verbatim>\<open>Parent item not from expected Feature board\<close>\<close>
  | UpdatedSkipped nat nat
      \<comment> \<open>\<^verbatim>\<open>Updated ${updatedCount} main items, skipped ${skippedCount}\<close>\<close>

record HandlerResult =
  challenge :: "string option"
  success :: "bool option"
  message :: "message option"
  dryRunFlag :: "bool option"

definition reply :: "bool \<Rightarrow> message \<Rightarrow> HandlerResult" where
  "reply isSuccess msg =
     \<lparr> challenge = None, success = Some isSuccess, message = Some msg, dryRunFlag = None \<rparr>"

text \<open>
  The number \<^verbatim>\<open>a || b\<close> and the test \<^verbatim>\<open>a && b\<close> on optional numbers: a missing
  field and the number 0 are falsy.
\<close>

definition orElse :: "int option \<Rightarrow> int \<Rightarrow> int" where
  "orElse a b = (case a of None \<Rightarrow> b | Some n \<Rightarrow> if n \<noteq> 0 then n else b)"

text \<open>
  The chain that fixes \<^verbatim>\<open>parentId\<close> and \<^verbatim>\<open>parentBoardId\<close>. The first component
  names the branch taken; \<open>None\<close> is the final \<^verbatim>\<open>else\<close>, which returns from the handler.
\<close>

datatype parent_source = ApiParent | EventNested | EventTopLevel

definition resolveParent ::
  "intParser \<Rightarrow> Event \<Rightarrow> SubitemWithParent \<Rightarrow> (parent_source \<times> jsval \<times> jsval) option"
where
  "resolveParent parseInt event sub =
     (let topLevel =
            (if pulseId event \<noteq> 0 \<and> boardId event \<noteq> 0
             then Some (EventTopLevel, JNum (pulseId event), JNum (boardId event))
             else None)
      in case parent_item sub of
           Some p \<Rightarrow> Some (ApiParent, parseInt (parent_id p), parseInt (parent_board_id p))
         | None \<Rightarrow>
             (case parentItemId event of
                None \<Rightarrow> topLevel
              | Some a \<Rightarrow>
                  (case parentItemBoardId event of
                     None \<Rightarrow> topLevel
                   | Some b \<Rightarrow>
                       if a \<noteq> 0 \<and> b \<noteq> 0 then Some (EventNested, JNum a, JNum b)
                       else topLevel)))"

text \<open>
  The state of the loop over the linked main items: the two counters, and the calls of
  \<^verbatim>\<open>logger.error\<close> in the \<^verbatim>\<open>catch\<close> clause with the item and the error they report.
\<close>

record LoopState =
  updatedCount :: nat
  skippedCount :: nat
  failureLog :: "(int \<times> error) list"

text \<open>One iteration: the \<^verbatim>\<open>try\<close> block for one main item and its \<^verbatim>\<open>catch\<close> clause.\<close>

definition processMainItem ::
  "Config \<Rightarrow> parser \<Rightarrow> server \<Rightarrow> jsval \<Rightarrow> int \<Rightarrow> LoopState \<times> trace \<Rightarrow> LoopState \<times> trace" where
  "processMainItem cfg JSON_parse srv parentId mainItemId st =
     (case getMainItemLinkedIds cfg JSON_parse srv mainItemId (snd st) of
        (Inl e, t1) \<Rightarrow> ((fst st)\<lparr>failureLog := failureLog (fst st) @ [(mainItemId, e)]\<rparr>, t1)
      | (Inr existingLinkedIds, t1) \<Rightarrow>
          if includes_js existingLinkedIds parentId
          then ((fst st)\<lparr>skippedCount := skippedCount (fst st) + 1\<rparr>, t1)
          else if dryRun cfg
          then ((fst st)\<lparr>updatedCount := updatedCount (fst st) + 1\<rparr>, t1)
          else (case updateMainItemLinks cfg srv mainItemId (main (boards cfg))
                       (newSet (existingLinkedIds @ [parentId])) t1 of
                  (Inl e, t2) \<Rightarrow>
                    ((fst st)\<lparr>failureLog := failureLog (fst st) @ [(mainItemId, e)]\<rparr>, t2)
                | (Inr u, t2) \<Rightarrow> ((fst st)\<lparr>updatedCount := updatedCount (fst st) + 1\<rparr>, t2)))"

fun processItems ::
  "Config \<Rightarrow> parser \<Rightarrow> server \<Rightarrow> jsval \<Rightarrow> int list \<Rightarrow> LoopState \<times> trace \<Rightarrow> LoopState \<times> trace" where
  "processItems cfg JSON_parse srv parentId [] st = st"
| "processItems cfg JSON_parse srv parentId (mainItemId # rest) st =
     processItems cfg JSON_parse srv parentId rest
       (processMainItem cfg JSON_parse srv parentId mainItemId st)"

definition linkedMainItemIds :: "Event \<Rightarrow> int list" where
  "linkedMainItemIds event =
     (case eventValue event of
        None \<Rightarrow> []
      | Some v \<Rightarrow> (case linkedPulseIds v of None \<Rightarrow> [] | Some ps \<Rightarrow> map linkedPulseId ps))"

definition finish :: "Config \<Rightarrow> LoopState \<times> trace \<Rightarrow> (error + HandlerResult) \<times> trace" where
  "finish cfg st =
     (Inr \<lparr> challenge = None, success = Some True,
            message = Some (UpdatedSkipped (updatedCount (fst st)) (skippedCount (fst st))),
            dryRunFlag = Some (dryRun cfg) \<rparr>, snd st)"

definition initialLoopState :: LoopState where
  "initialLoopState = \<lparr> updatedCount = 0, skippedCount = 0, failureLog = [] \<rparr>"

text \<open>
  \<^verbatim>\<open>handleWebhookEvent\<close> as it accepts events from the subitem board and from the feature
  board and falls back to the fields of the event for the parent. An exception that leaves
  the handler (an error of \<^verbatim>\<open>getSubitemWithParent\<close>) is \<open>Inl e\<close>.
\<close>

definition handleWebhookEvent ::
  "Config \<Rightarrow> intParser \<Rightarrow> parser \<Rightarrow> server \<Rightarrow> payload \<Rightarrow> trace \<Rightarrow>
     (error + HandlerResult) \<times> trace"
where
  "handleWebhookEvent cfg parseInt JSON_parse srv p t =
     (case p of
        WebhookChallenge c \<Rightarrow>
          (Inr \<lparr> challenge = Some c, success = None, message = None, dryRunFlag = None \<rparr>, t)
      | WebhookEvent event \<Rightarrow>
          if boardId event \<noteq> subitem (boards cfg) \<and> boardId event \<noteq> feature (boards cfg)
          then (Inr (reply False EventFromUnexpectedBoard), t)
          else if columnId event \<noteq> subitemToMain (columns cfg)
          then (Inr (reply False EventForNonTargetColumn), t)
          else if length (linkedMainItemIds event) = 0
          then (Inr (reply True NoLinkedItemsToProcess), t)
          else
            (case getSubitemWithParent cfg srv (orElse (subitemId event) (pulseId event)) t of
               (Inl e, t1) \<Rightarrow> (Inl e, t1)
             | (Inr None, t1) \<Rightarrow> (Inr (reply False FailedToFetchSubitem), t1)
             | (Inr (Some sub), t1) \<Rightarrow>
                 (case resolveParent parseInt event sub of
                    None \<Rightarrow> (Inr (reply False SubitemHasNoParentItem), t1)
                  | Some (src, parentId, parentBoardId) \<Rightarrow>
                      if parentBoardId \<noteq> JNum (feature (boards cfg))
                      then (Inr (reply False ParentItemNotFromExpectedFeatureBoard), t1)
                      else finish cfg
                             (processItems cfg JSON_parse srv parentId (linkedMainItemIds event)
                                (initialLoopState, t1)))))"

text \<open>
  \<^verbatim>\<open>handleWebhookEvent\<close> of \<^verbatim>\<open>src/webhook-handler.ts\<close>: events of the subitem board
  only, the subitem is \<^verbatim>\<open>event.pulseId\<close>, and the parent comes from the lookup alone.
\<close>

definition handleWebhookEvent_direct ::
  "Config \<Rightarrow> intParser \<Rightarrow> parser \<Rightarrow> server \<Rightarrow> payload \<Rightarrow> trace \<Rightarrow>
     (error + HandlerResult) \<times> trace"
where
  "handleWebhookEvent_direct cfg parseInt JSON_parse srv p t =
     (case p of
        WebhookChallenge c \<Rightarrow>
          (Inr \<lparr> challenge = Some c, success = None, message = None, dryRunFlag = None \<rparr>, t)
      | WebhookEvent event \<Rightarrow>
          if boardId event \<noteq> subitem (boards cfg)
          then (Inr (reply False EventFromUnexpectedBoard), t)
          else if columnId event \<noteq> subitemToMain (columns cfg)
          then (Inr (reply False EventForNonTargetColumn), t)
          else if length (linkedMainItemIds event) = 0
          then (Inr (reply True NoLinkedItemsToProcess), t)
          else
            (case getSubitemWithParent cfg srv (pulseId event) t of
               (Inl e, t1) \<Rightarrow> (Inl e, t1)
             | (Inr None, t1) \<Rightarrow> (Inr (reply False FailedToFetchSubitem), t1)
             | (Inr (Some sub), t1) \<Rightarrow>
                 (case parent_item sub of
                    None \<Rightarrow> (Inr (reply False SubitemHasNoParentItem), t1)
                  | Some par \<Rightarrow>
                      if parseInt (parent_board_id par) \<noteq> JNum (feature (boards cfg))
                      then (Inr (reply False ParentItemNotFromExpectedFeatureBoard), t1)
                      else finish cfg
                             (processItems cfg JSON_parse srv (parseInt (parent_id par))
                                (linkedMainItemIds event) (initialLoopState, t1)))))"

section \<open>Sample inputs\<close>

text \<open>
  A responder that rejects the first two calls of a run and answers the third, and one
  that answers every call with a server error whose status counts the calls.
\<close>

definition flakyResponder :: "string responder" where
  "flakyResponder t req =
     (if length t < 2 then Rejected ''ECONNRESET''
      else Responded True 200 ''OK'' (Some (GraphQLResponse (Some ''42'') None)))"

definition failingResponder :: "string responder" where
  "failingResponder t req = Responded False (500 + length t) ''Server Error'' None"

text \<open>
  Two relation values as the platform encodes them, and \<^verbatim>\<open>JSON.parse\<close> on the texts
  that the samples use; any other text stands for one that \<^verbatim>\<open>JSON.parse\<close> rejects.
\<close>

definition linksTo5 :: string where
  \<open>linksTo5 = ''{"linkedPulseIds":[{"linkedPulseId":5}]}''\<close>

definition linksTo77 :: string where
  \<open>linksTo77 = ''{"linkedPulseIds":[{"linkedPulseId":77}]}''\<close>

definition sampleParse :: parser where
  "sampleParse s =
     (if s = linksTo5
      then Some (JObj [(''linkedPulseIds'', JArr [JObj [(''linkedPulseId'', JNum 5)]])])
      else if s = linksTo77
      then Some (JObj [(''linkedPulseIds'', JArr [JObj [(''linkedPulseId'', JNum 77)]])])
      else if s = ''{}'' then Some (JObj [])
      else if s = ''null'' then Some JNull
      else None)"

text \<open>
  \<^verbatim>\<open>parseInt(s, 10)\<close> on the three texts that the samples use; any other text stands
  for one that starts with no integer.
\<close>

definition sampleParseInt :: intParser where
  "sampleParseInt s =
     (if s = ''77'' then JNum 77
      else if s = ''18041801957'' then JNum 18041801957
      else if s = ''12345'' then JNum 12345
      else JNaN)"

text \<open>
  A remote side: the subitem's parent is item 77 of the feature board; reading main item
  1 always times out, main item 2 is linked to 5, main item 3 is linked to 77, the
  relation value of main item 5 is not JSON, any other main item does not exist; every
  write is accepted.
\<close>

definition answer :: "'d \<Rightarrow> 'd fetch_result" where
  "answer d = Responded True 200 ''OK'' (Some (GraphQLResponse (Some d) None))"

definition mainItemWith :: "string option \<Rightarrow> MainItemRelations" where
  "mainItemWith v =
     MainItemRelations ''1'' ''task'' [ColumnValue ''board_relation_mkw8vvdh'' v ''board_relation'']"

definition sampleSubitem :: SubitemWithParent where
  "sampleSubitem =
     SubitemWithParent ''900'' ''subtask'' (Some (ParentItem ''77'' ''18041801957'')) []"

definition sampleServer :: server where
  "sampleServer =
     \<lparr> subitemResponder = (\<lambda>t req. answer [sampleSubitem]),
       mainItemResponder = (\<lambda>t req.
          if req = GetMainItemLinks 1 then Rejected ''ETIMEDOUT''
          else if req = GetMainItemLinks 2 then answer [mainItemWith (Some linksTo5)]
          else if req = GetMainItemLinks 3 then answer [mainItemWith (Some linksTo77)]
          else if req = GetMainItemLinks 5 then answer [mainItemWith (Some ''<html>'')]
          else answer []),
       changeResponder = (\<lambda>t req. answer ''1'') \<rparr>"

text \<open>The same remote side with the subitem's parent on another board.\<close>

definition strayServer :: server where
  "strayServer =
     sampleServer\<lparr> subitemResponder := (\<lambda>t req.
        answer [SubitemWithParent ''900'' ''subtask'' (Some (ParentItem ''77'' ''12345'')) []]) \<rparr>"

text \<open>The same remote side refusing every write, and a subitem without a parent.\<close>

definition readOnlyServer :: server where
  "readOnlyServer =
     sampleServer\<lparr> changeResponder := (\<lambda>t req. Responded False 403 ''Forbidden'' None) \<rparr>"

definition orphanSubitem :: SubitemWithParent where
  "orphanSubitem = SubitemWithParent ''900'' ''subtask'' None []"

text \<open>An event of subitem 900 under item 77 for a given board, column and linked ids.\<close>

definition eventFor :: "int \<Rightarrow> string \<Rightarrow> int list \<Rightarrow> Event" where
  "eventFor board col ids =
     \<lparr> boardId = board, pulseId = 77, subitemId = Some 900, parentItemId = None,
       parentItemBoardId = None, columnId = col,
       eventValue = Some \<lparr> linkedPulseIds = Some (map LinkedPulse ids) \<rparr> \<rparr>"

section \<open>The retry loop\<close>

declare mondayQueryFrom.simps [simp del]

lemma mondayQueryFrom_again:
  "attempt \<le> maxAttempts (retry cfg) \<Longrightarrow>
   mondayQueryFrom cfg respond req attempt lastError t =
     (case attemptResult (respond t req) of
        Inr d \<Rightarrow> (Inr d, t @ [req])
      | Inl e \<Rightarrow> mondayQueryFrom cfg respond req (Suc attempt) (Some e) (t @ [req]))"
  by (subst mondayQueryFrom.simps) (simp add: fetch_def split: sum.splits)

lemma mondayQueryFrom_exhausted:
  "\<not> attempt \<le> maxAttempts (retry cfg) \<Longrightarrow>
   mondayQueryFrom cfg respond req attempt lastError t =
     (Inl (case lastError of Some e \<Rightarrow> e | None \<Rightarrow> UnknownError), t)"
  by (subst mondayQueryFrom.simps) simp

text \<open>Every call of the loop sends the same request again, at most once per attempt left.\<close>

lemma mondayQueryFrom_trace:
  "\<exists>k. k \<le> maxAttempts (retry cfg) + 1 - attempt \<and>
       snd (mondayQueryFrom cfg respond req attempt lastError t) = t @ replicate k req"
proof (induction cfg respond req attempt lastError t rule: mondayQueryFrom.induct)
  case (1 cfg respond req attempt lastError t)
  show ?case
  proof (cases "attempt \<le> maxAttempts (retry cfg)")
    case False
    then show ?thesis by (simp add: mondayQueryFrom_exhausted)
  next
    case True
    show ?thesis
    proof (cases "attemptResult (fst (fetch respond req t))")
      case (Inr d)
      have "snd (mondayQueryFrom cfg respond req attempt lastError t) = t @ replicate 1 req"
        using True Inr by (simp add: mondayQueryFrom_again fetch_def)
      moreover have "1 \<le> maxAttempts (retry cfg) + 1 - attempt" using True by simp
      ultimately show ?thesis by blast
    next
      case (Inl e)
      from "1.IH" [OF True Inl] obtain k where
        k: "k \<le> maxAttempts (retry cfg) + 1 - (attempt + 1)"
           "snd (mondayQueryFrom cfg respond req (attempt + 1) (Some e) (snd (fetch respond req t)))
              = snd (fetch respond req t) @ replicate k req"
        by blast
      have "snd (mondayQueryFrom cfg respond req attempt lastError t) = t @ replicate (Suc k) req"
        using True Inl k(2) by (simp add: mondayQueryFrom_again fetch_def)
      moreover have "Suc k \<le> maxAttempts (retry cfg) + 1 - attempt" using True k(1) by simp
      ultimately show ?thesis by blast
    qed
  qed
qed

lemma mondayQuery_trace:
  "\<exists>k. snd (mondayQuery cfg respond req t) = t @ replicate k req"
  unfolding mondayQuery_def using mondayQueryFrom_trace by blast

lemma mondayQuery_first:
  assumes "1 \<le> maxAttempts (retry cfg)" "attemptResult (respond t req) = Inr d"
  shows "mondayQuery cfg respond req t = (Inr d, t @ [req])"
  using assms by (simp add: mondayQuery_def mondayQueryFrom_again)

lemma mondayQuery_sends:
  assumes "1 \<le> maxAttempts (retry cfg)"
  shows "\<exists>k. snd (mondayQuery cfg respond req t) = t @ req # replicate k req"
proof (cases "attemptResult (respond t req)")
  case (Inr d)
  then show ?thesis using mondayQuery_first [of cfg respond t req d] assms by simp
next
  case (Inl e)
  obtain k where
    "snd (mondayQueryFrom cfg respond req (Suc 1) (Some e) (t @ [req])) = (t @ [req]) @ replicate k req"
    using mondayQueryFrom_trace by blast
  then have "snd (mondayQuery cfg respond req t) = t @ req # replicate k req"
    using assms Inl by (simp add: mondayQuery_def mondayQueryFrom_again)
  then show ?thesis by blast
qed

lemma config_maxAttempts [simp]: "maxAttempts (retry (config d)) = 3"
  by (simp add: config_def)

lemma mondayQuery_third:
  assumes "attemptResult (respond t req) = Inl e1"
    and "attemptResult (respond (t @ [req]) req) = Inl e2"
  shows "mondayQuery (config d) respond req t =
     (case attemptResult (respond (t @ [req, req]) req) of
        Inr r \<Rightarrow> (Inr r, t @ [req, req, req])
      | Inl e3 \<Rightarrow> (Inl e3, t @ [req, req, req]))"
  using assms
  by (simp add: mondayQuery_def mondayQueryFrom_again mondayQueryFrom_exhausted split: sum.splits)

text \<open>
  C5. With the configured three attempts: when the first two attempts of a call fail and
  the third succeeds, \<open>mondayQuery\<close> sends the request exactly three times and returns the
  data of the third answer; when the third attempt fails as well, it sends the request
  exactly three times and throws the error of the third attempt.
\<close>

theorem mondayQuery_three_attempts:
  "attemptResult (respond t req) = Inl e1 \<Longrightarrow>
   attemptResult (respond (t @ [req]) req) = Inl e2 \<Longrightarrow>
   (attemptResult (respond (t @ [req, req]) req) = Inr d \<longrightarrow>
      mondayQuery (config envDryRun) respond req t = (Inr d, t @ [req, req, req])) \<and>
   (attemptResult (respond (t @ [req, req]) req) = Inl e3 \<longrightarrow>
      mondayQuery (config envDryRun) respond req t = (Inl e3, t @ [req, req, req]))"
  by (simp add: mondayQuery_third)

theorem mondayQuery_three_attempts_witness:
  "mondayQuery (config False) flakyResponder (GetMainItemLinks 7) [] =
     (Inr ''42'', [GetMainItemLinks 7, GetMainItemLinks 7, GetMainItemLinks 7]) \<and>
   mondayQuery (config False) failingResponder (GetMainItemLinks 7) [] =
     (Inl (HttpError 502 ''Server Error''),
      [GetMainItemLinks 7, GetMainItemLinks 7, GetMainItemLinks 7])"
proof -
  have a: "attemptResult (flakyResponder [] (GetMainItemLinks 7)) = Inl (FetchError ''ECONNRESET'')"
    by (simp add: attemptResult_def flakyResponder_def)
  have b: "attemptResult (flakyResponder ([] @ [GetMainItemLinks 7]) (GetMainItemLinks 7))
             = Inl (FetchError ''ECONNRESET'')"
    by (simp add: attemptResult_def flakyResponder_def)
  have c: "attemptResult (flakyResponder ([] @ [GetMainItemLinks 7, GetMainItemLinks 7])
             (GetMainItemLinks 7)) = Inr ''42''"
    by (simp add: attemptResult_def flakyResponder_def)
  have a': "attemptResult (failingResponder [] (GetMainItemLinks 7))
              = Inl (HttpError 500 ''Server Error'')"
    by (simp add: attemptResult_def failingResponder_def)
  have b': "attemptResult (failingResponder ([] @ [GetMainItemLinks 7]) (GetMainItemLinks 7))
              = Inl (HttpError 501 ''Server Error'')"
    by (simp add: attemptResult_def failingResponder_def)
  have c': "attemptResult (failingResponder ([] @ [GetMainItemLinks 7, GetMainItemLinks 7])
              (GetMainItemLinks 7)) = Inl (HttpError 502 ''Server Error'')"
    by (simp add: attemptResult_def failingResponder_def)
  show ?thesis
    using mondayQuery_three_attempts [of flakyResponder "[]" "GetMainItemLinks 7" _ _ "''42''" False, OF a b]
      mondayQuery_three_attempts [of failingResponder "[]" "GetMainItemLinks 7" _ _ _ False
        "HttpError 502 ''Server Error''", OF a' b'] c c'
    by simp
qed

section \<open>The configured constants and the sample remote side\<close>

lemma config_boards [simp]:
  "subitem (boards (config d)) = 18041802160"
  "feature (boards (config d)) = 18041801957"
  "main (boards (config d)) = 18012438587"
  by (simp_all add: config_def)

lemma config_columns [simp]:
  "subitemToMain (columns (config d)) = ''board_relation_mkw4vrjt''"
  "mainToFeature (columns (config d)) = ''board_relation_mkw8vvdh''"
  by (simp_all add: config_def)

lemma config_dryRun [simp]: "dryRun (config d) = d"
  by (simp add: config_def)

lemma eventFor_simps [simp]:
  "boardId (eventFor board col ids) = board"
  "pulseId (eventFor board col ids) = 77"
  "subitemId (eventFor board col ids) = Some 900"
  "parentItemId (eventFor board col ids) = None"
  "parentItemBoardId (eventFor board col ids) = None"
  "columnId (eventFor board col ids) = col"
  "linkedMainItemIds (eventFor board col ids) = ids"
  by (simp_all add: eventFor_def linkedMainItemIds_def comp_def)

lemma attemptResult_answer [simp]: "attemptResult (answer d) = Inr d"
  by (simp add: attemptResult_def answer_def)

lemma attemptResult_Rejected [simp]: "attemptResult (Rejected msg) = Inl (FetchError msg)"
  by (simp add: attemptResult_def)

lemma parseInt_samples:
  "sampleParseInt ''77'' = JNum 77"
  "sampleParseInt ''18041801957'' = JNum 18041801957"
  "sampleParseInt ''12345'' = JNum 12345"
  by (simp_all add: sampleParseInt_def)

lemma sample_getSubitem:
  "getSubitemWithParent (config d) sampleServer sid t
     = (Inr (Some sampleSubitem), t @ [GetSubitemWithParent sid])"
  by (simp add: getSubitemWithParent_def sampleServer_def
      mondayQuery_first [of _ _ _ _ "[sampleSubitem]"])

lemma sample_resolve:
  "resolveParent sampleParseInt (eventFor board col ids) sampleSubitem
     = Some (ApiParent, JNum 77, JNum 18041801957)"
  by (simp add: resolveParent_def sampleSubitem_def parseInt_samples)

lemma sample_read_1:
  "getMainItemLinkedIds (config d) sampleParse sampleServer 1 t
     = (Inl (FetchError ''ETIMEDOUT''),
        t @ [GetMainItemLinks 1, GetMainItemLinks 1, GetMainItemLinks 1])"
  by (simp add: getMainItemLinkedIds_def sampleServer_def
      mondayQuery_third [of _ _ _ "FetchError ''ETIMEDOUT''" "FetchError ''ETIMEDOUT''"])

lemma sample_read_2:
  "getMainItemLinkedIds (config d) sampleParse sampleServer 2 t
     = (Inr [JNum 5], t @ [GetMainItemLinks 2])"
  by (simp add: getMainItemLinkedIds_def sampleServer_def
      mondayQuery_first [of _ _ _ _ "[mainItemWith (Some linksTo5)]"]
      linkedIdsOfItems_def mainItemWith_def relationTryBlock_def sampleParse_def linksTo5_def)

lemma sample_read_3:
  "getMainItemLinkedIds (config d) sampleParse sampleServer 3 t
     = (Inr [JNum 77], t @ [GetMainItemLinks 3])"
  by (simp add: getMainItemLinkedIds_def sampleServer_def
      mondayQuery_first [of _ _ _ _ "[mainItemWith (Some linksTo77)]"]
      linkedIdsOfItems_def mainItemWith_def relationTryBlock_def sampleParse_def
      linksTo5_def linksTo77_def)

lemma sample_read_4:
  "getMainItemLinkedIds (config d) sampleParse sampleServer 4 t
     = (Inr [], t @ [GetMainItemLinks 4])"
  by (simp add: getMainItemLinkedIds_def sampleServer_def
      mondayQuery_first [of _ _ _ _ "[]"] linkedIdsOfItems_def)

lemma sample_write:
  "updateMainItemLinks (config d) sampleServer m b ids t
     = (Inr (), t @ [UpdateMainItemLinks b m ''board_relation_mkw8vvdh'' ids])"
  by (simp add: updateMainItemLinks_def sampleServer_def mondayQuery_first [of _ _ _ _ "''1''"])

lemma readOnly_read:
  "getMainItemLinkedIds cfg P readOnlyServer m t = getMainItemLinkedIds cfg P sampleServer m t"
  by (simp add: getMainItemLinkedIds_def readOnlyServer_def)

lemma readOnly_getSubitem:
  "getSubitemWithParent cfg readOnlyServer sid t = getSubitemWithParent cfg sampleServer sid t"
  by (simp add: getSubitemWithParent_def readOnlyServer_def)

lemma readOnly_write:
  "updateMainItemLinks (config d) readOnlyServer m b ids t
     = (Inl (HttpError 403 ''Forbidden''),
        t @ [UpdateMainItemLinks b m ''board_relation_mkw8vvdh'' ids,
             UpdateMainItemLinks b m ''board_relation_mkw8vvdh'' ids,
             UpdateMainItemLinks b m ''board_relation_mkw8vvdh'' ids])"
  by (simp add: updateMainItemLinks_def readOnlyServer_def attemptResult_def
      mondayQuery_third [of _ _ _ "HttpError 403 ''Forbidden''" "HttpError 403 ''Forbidden''"])

section \<open>Events out of scope\<close>

text \<open>
  C2. An event whose board is not one of the accepted boards, or whose column is not the
  subitem-to-main relation column, or whose list of linked main items is empty, is
  answered without any remote call: the list of requests sent is the one the handler
  started with. This holds for the handler that accepts both boards and for the one that
  accepts the subitem board only.
\<close>

theorem out_of_scope_no_remote_call:
  "((boardId event \<noteq> subitem (boards cfg) \<and> boardId event \<noteq> feature (boards cfg))
      \<or> columnId event \<noteq> subitemToMain (columns cfg)
      \<or> linkedMainItemIds event = []
    \<longrightarrow> snd (handleWebhookEvent cfg parseInt JSON_parse srv (WebhookEvent event) t) = t) \<and>
   (boardId event \<noteq> subitem (boards cfg)
      \<or> columnId event \<noteq> subitemToMain (columns cfg)
      \<or> linkedMainItemIds event = []
    \<longrightarrow> snd (handleWebhookEvent_direct cfg parseInt JSON_parse srv (WebhookEvent event) t) = t)"
  by (simp add: handleWebhookEvent_def handleWebhookEvent_direct_def)

theorem out_of_scope_no_remote_call_witness:
  "snd (handleWebhookEvent (config False) sampleParseInt sampleParse sampleServer
          (WebhookEvent (eventFor 12345 ''board_relation_mkw4vrjt'' [2])) []) = [] \<and>
   snd (handleWebhookEvent (config False) sampleParseInt sampleParse sampleServer
          (WebhookEvent (eventFor 18041801957 ''status'' [2])) []) = [] \<and>
   snd (handleWebhookEvent (config False) sampleParseInt sampleParse sampleServer
          (WebhookEvent (eventFor 18041801957 ''board_relation_mkw4vrjt'' [])) []) = [] \<and>
   snd (handleWebhookEvent_direct (config False) sampleParseInt sampleParse sampleServer
          (WebhookEvent (eventFor 18041801957 ''board_relation_mkw4vrjt'' [2])) []) = [] \<and>
   snd (handleWebhookEvent_direct (config False) sampleParseInt sampleParse sampleServer
          (WebhookEvent (eventFor 18041802160 ''status'' [2])) []) = [] \<and>
   snd (handleWebhookEvent_direct (config False) sampleParseInt sampleParse sampleServer
          (WebhookEvent (eventFor 18041802160 ''board_relation_mkw4vrjt'' [])) []) = []"
  using
    out_of_scope_no_remote_call [where event = "eventFor 12345 ''board_relation_mkw4vrjt'' [2]"
      and cfg = "config False" and JSON_parse = sampleParse and srv = sampleServer and t = "[]"]
    out_of_scope_no_remote_call [where event = "eventFor 18041801957 ''status'' [2]"
      and cfg = "config False" and JSON_parse = sampleParse and srv = sampleServer and t = "[]"]
    out_of_scope_no_remote_call [where event = "eventFor 18041801957 ''board_relation_mkw4vrjt'' []"
      and cfg = "config False" and JSON_parse = sampleParse and srv = sampleServer and t = "[]"]
    out_of_scope_no_remote_call [where event = "eventFor 18041801957 ''board_relation_mkw4vrjt'' [2]"
      and cfg = "config False" and JSON_parse = sampleParse and srv = sampleServer and t = "[]"]
    out_of_scope_no_remote_call [where event = "eventFor 18041802160 ''status'' [2]"
      and cfg = "config False" and JSON_parse = sampleParse and srv = sampleServer and t = "[]"]
    out_of_scope_no_remote_call [where event = "eventFor 18041802160 ''board_relation_mkw4vrjt'' []"
      and cfg = "config False" and JSON_parse = sampleParse and srv = sampleServer and t = "[]"]
  by simp

text \<open>
  C1, as the specification states it, fails: an event from an unexpected board is answered
  with \<^verbatim>\<open>success: false\<close>.
\<close>

theorem unexpected_board_reports_failure:
  "handleWebhookEvent (config False) sampleParseInt sampleParse sampleServer
      (WebhookEvent (eventFor 12345 ''board_relation_mkw4vrjt'' [2])) []
     = (Inr (reply False EventFromUnexpectedBoard), []) \<and>
   success (reply False EventFromUnexpectedBoard) = Some False"
  by (simp add: handleWebhookEvent_def reply_def)

lemma processMainItem_skip:
  assumes "getMainItemLinkedIds cfg P srv m t = (Inr S, t1)" "includes_js S parentId"
  shows "processMainItem cfg P srv parentId m (st, t)
           = (st\<lparr>skippedCount := skippedCount st + 1\<rparr>, t1)"
  using assms by (simp add: processMainItem_def)

text \<open>
  C1, amended. An event from an unexpected board or for a non-target column is answered
  with \<^verbatim>\<open>success: false\<close> and the message that names the reason, by both handlers; an
  event whose list of linked main items is empty is answered with \<^verbatim>\<open>success: true\<close>
  and the message \<^verbatim>\<open>No linked items to process\<close>, by both handlers; an event that
  reaches the loop over the main items is answered, by both handlers, with
  \<^verbatim>\<open>success: true\<close> and the two counts of the loop, whatever the loop finds; and in
  that loop a main item whose list already contains the parent adds one to the skipped
  count and nothing else.
\<close>

theorem scope_rejection_results:
  "(boardId event \<noteq> subitem (boards cfg) \<and> boardId event \<noteq> feature (boards cfg) \<longrightarrow>
      handleWebhookEvent cfg parseInt JSON_parse srv (WebhookEvent event) t
        = (Inr (reply False EventFromUnexpectedBoard), t)) \<and>
   ((boardId event = subitem (boards cfg) \<or> boardId event = feature (boards cfg)) \<and>
    columnId event \<noteq> subitemToMain (columns cfg) \<longrightarrow>
      handleWebhookEvent cfg parseInt JSON_parse srv (WebhookEvent event) t
        = (Inr (reply False EventForNonTargetColumn), t)) \<and>
   ((boardId event = subitem (boards cfg) \<or> boardId event = feature (boards cfg)) \<and>
    columnId event = subitemToMain (columns cfg) \<and> linkedMainItemIds event = [] \<longrightarrow>
      handleWebhookEvent cfg parseInt JSON_parse srv (WebhookEvent event) t
        = (Inr (reply True NoLinkedItemsToProcess), t)) \<and>
   ((boardId event = subitem (boards cfg) \<or> boardId event = feature (boards cfg)) \<and>
    columnId event = subitemToMain (columns cfg) \<and> linkedMainItemIds event \<noteq> [] \<and>
    getSubitemWithParent cfg srv (orElse (subitemId event) (pulseId event)) t
      = (Inr (Some sub), t1) \<and>
    resolveParent parseInt event sub = Some (src, parentId, JNum (feature (boards cfg))) \<longrightarrow>
      (let final = processItems cfg JSON_parse srv parentId (linkedMainItemIds event)
                     (initialLoopState, t1)
       in handleWebhookEvent cfg parseInt JSON_parse srv (WebhookEvent event) t
            = (Inr \<lparr> challenge = None, success = Some True,
                     message = Some (UpdatedSkipped (updatedCount (fst final))
                                       (skippedCount (fst final))),
                     dryRunFlag = Some (dryRun cfg) \<rparr>, snd final))) \<and>
   (boardId event \<noteq> subitem (boards cfg) \<longrightarrow>
      handleWebhookEvent_direct cfg parseInt JSON_parse srv (WebhookEvent event) t
        = (Inr (reply False EventFromUnexpectedBoard), t)) \<and>
   (boardId event = subitem (boards cfg) \<and> columnId event \<noteq> subitemToMain (columns cfg) \<longrightarrow>
      handleWebhookEvent_direct cfg parseInt JSON_parse srv (WebhookEvent event) t
        = (Inr (reply False EventForNonTargetColumn), t)) \<and>
   (boardId event = subitem (boards cfg) \<and> columnId event = subitemToMain (columns cfg) \<and>
    linkedMainItemIds event = [] \<longrightarrow>
      handleWebhookEvent_direct cfg parseInt JSON_parse srv (WebhookEvent event) t
        = (Inr (reply True NoLinkedItemsToProcess), t)) \<and>
   (boardId event = subitem (boards cfg) \<and> columnId event = subitemToMain (columns cfg) \<and>
    linkedMainItemIds event \<noteq> [] \<and>
    getSubitemWithParent cfg srv (pulseId event) t = (Inr (Some sub), t1) \<and>
    parent_item sub = Some par \<and>
    parseInt (parent_board_id par) = JNum (feature (boards cfg)) \<longrightarrow>
      (let final = processItems cfg JSON_parse srv (parseInt (parent_id par))
                     (linkedMainItemIds event) (initialLoopState, t1)
       in handleWebhookEvent_direct cfg parseInt JSON_parse srv (WebhookEvent event) t
            = (Inr \<lparr> challenge = None, success = Some True,
                     message = Some (UpdatedSkipped (updatedCount (fst final))
                                       (skippedCount (fst final))),
                     dryRunFlag = Some (dryRun cfg) \<rparr>, snd final))) \<and>
   (getMainItemLinkedIds cfg JSON_parse srv m tr = (Inr S, tr1) \<and> includes_js S linkedParent \<longrightarrow>
      processItems cfg JSON_parse srv linkedParent (m # rest) (st, tr)
        = processItems cfg JSON_parse srv linkedParent rest
            (st\<lparr>skippedCount := skippedCount st + 1\<rparr>, tr1))"
proof -
  have rejections:
    "(boardId event \<noteq> subitem (boards cfg) \<and> boardId event \<noteq> feature (boards cfg) \<longrightarrow>
        handleWebhookEvent cfg parseInt JSON_parse srv (WebhookEvent event) t
          = (Inr (reply False EventFromUnexpectedBoard), t)) \<and>
     ((boardId event = subitem (boards cfg) \<or> boardId event = feature (boards cfg)) \<and>
      columnId event \<noteq> subitemToMain (columns cfg) \<longrightarrow>
        handleWebhookEvent cfg parseInt JSON_parse srv (WebhookEvent event) t
          = (Inr (reply False EventForNonTargetColumn), t)) \<and>
     ((boardId event = subitem (boards cfg) \<or> boardId event = feature (boards cfg)) \<and>
      columnId event = subitemToMain (columns cfg) \<and> linkedMainItemIds event = [] \<longrightarrow>
        handleWebhookEvent cfg parseInt JSON_parse srv (WebhookEvent event) t
          = (Inr (reply True NoLinkedItemsToProcess), t))"
    by (auto simp add: handleWebhookEvent_def)
  have rejections_direct:
    "(boardId event \<noteq> subitem (boards cfg) \<longrightarrow>
        handleWebhookEvent_direct cfg parseInt JSON_parse srv (WebhookEvent event) t
          = (Inr (reply False EventFromUnexpectedBoard), t)) \<and>
     (boardId event = subitem (boards cfg) \<and> columnId event \<noteq> subitemToMain (columns cfg) \<longrightarrow>
        handleWebhookEvent_direct cfg parseInt JSON_parse srv (WebhookEvent event) t
          = (Inr (reply False EventForNonTargetColumn), t)) \<and>
     (boardId event = subitem (boards cfg) \<and> columnId event = subitemToMain (columns cfg) \<and>
      linkedMainItemIds event = [] \<longrightarrow>
        handleWebhookEvent_direct cfg parseInt JSON_parse srv (WebhookEvent event) t
          = (Inr (reply True NoLinkedItemsToProcess), t))"
    by (auto simp add: handleWebhookEvent_direct_def)
  have loop:
    "(boardId event = subitem (boards cfg) \<or> boardId event = feature (boards cfg)) \<and>
     columnId event = subitemToMain (columns cfg) \<and> linkedMainItemIds event \<noteq> [] \<and>
     getSubitemWithParent cfg srv (orElse (subitemId event) (pulseId event)) t
       = (Inr (Some sub), t1) \<and>
     resolveParent parseInt event sub = Some (src, parentId, JNum (feature (boards cfg))) \<longrightarrow>
       (let final = processItems cfg JSON_parse srv parentId (linkedMainItemIds event)
                      (initialLoopState, t1)
        in handleWebhookEvent cfg parseInt JSON_parse srv (WebhookEvent event) t
             = (Inr \<lparr> challenge = None, success = Some True,
                      message = Some (UpdatedSkipped (updatedCount (fst final))
                                        (skippedCount (fst final))),
                      dryRunFlag = Some (dryRun cfg) \<rparr>, snd final))"
    by (auto simp add: handleWebhookEvent_def finish_def Let_def)
  have loop_direct:
    "boardId event = subitem (boards cfg) \<and> columnId event = subitemToMain (columns cfg) \<and>
     linkedMainItemIds event \<noteq> [] \<and>
     getSubitemWithParent cfg srv (pulseId event) t = (Inr (Some sub), t1) \<and>
     parent_item sub = Some par \<and>
     parseInt (parent_board_id par) = JNum (feature (boards cfg)) \<longrightarrow>
       (let final = processItems cfg JSON_parse srv (parseInt (parent_id par))
                      (linkedMainItemIds event) (initialLoopState, t1)
        in handleWebhookEvent_direct cfg parseInt JSON_parse srv (WebhookEvent event) t
             = (Inr \<lparr> challenge = None, success = Some True,
                      message = Some (UpdatedSkipped (updatedCount (fst final))
                                        (skippedCount (fst final))),
                      dryRunFlag = Some (dryRun cfg) \<rparr>, snd final))"
    by (auto simp add: handleWebhookEvent_direct_def finish_def Let_def)
  have skipped:
    "getMainItemLinkedIds cfg JSON_parse srv m tr = (Inr S, tr1) \<and> includes_js S linkedParent \<longrightarrow>
       processItems cfg JSON_parse srv linkedParent (m # rest) (st, tr)
         = processItems cfg JSON_parse srv linkedParent rest
             (st\<lparr>skippedCount := skippedCount st + 1\<rparr>, tr1)"
    by (simp add: processMainItem_skip)
  show ?thesis
    using rejections rejections_direct loop loop_direct skipped by blast
qed

theorem scope_rejection_results_witness:
  "handleWebhookEvent (config False) sampleParseInt sampleParse sampleServer
      (WebhookEvent (eventFor 999 ''board_relation_mkw4vrjt'' [3])) []
     = (Inr (reply False EventFromUnexpectedBoard), []) \<and>
   handleWebhookEvent (config False) sampleParseInt sampleParse sampleServer
      (WebhookEvent (eventFor 18041801957 ''status'' [3])) []
     = (Inr (reply False EventForNonTargetColumn), []) \<and>
   handleWebhookEvent (config False) sampleParseInt sampleParse sampleServer
      (WebhookEvent (eventFor 18041801957 ''board_relation_mkw4vrjt'' [])) []
     = (Inr (reply True NoLinkedItemsToProcess), []) \<and>
   handleWebhookEvent (config False) sampleParseInt sampleParse sampleServer
      (WebhookEvent (eventFor 18041801957 ''board_relation_mkw4vrjt'' [3])) []
     = (Inr \<lparr> challenge = None, success = Some True, message = Some (UpdatedSkipped 0 1),
              dryRunFlag = Some False \<rparr>,
        [GetSubitemWithParent 900, GetMainItemLinks 3]) \<and>
   handleWebhookEvent_direct (config False) sampleParseInt sampleParse sampleServer
      (WebhookEvent (eventFor 18041801957 ''board_relation_mkw4vrjt'' [3])) []
     = (Inr (reply False EventFromUnexpectedBoard), []) \<and>
   handleWebhookEvent_direct (config False) sampleParseInt sampleParse sampleServer
      (WebhookEvent (eventFor 18041802160 ''status'' [3])) []
     = (Inr (reply False EventForNonTargetColumn), []) \<and>
   handleWebhookEvent_direct (config False) sampleParseInt sampleParse sampleServer
      (WebhookEvent (eventFor 18041802160 ''board_relation_mkw4vrjt'' [])) []
     = (Inr (reply True NoLinkedItemsToProcess), []) \<and>
   handleWebhookEvent_direct (config False) sampleParseInt sampleParse sampleServer
      (WebhookEvent (eventFor 18041802160 ''board_relation_mkw4vrjt'' [3])) []
     = (Inr \<lparr> challenge = None, success = Some True, message = Some (UpdatedSkipped 0 1),
              dryRunFlag = Some False \<rparr>,
        [GetSubitemWithParent 77, GetMainItemLinks 3])"
proof -
  let ?col = "''board_relation_mkw4vrjt''"
  have fetched: "getSubitemWithParent (config False) sampleServer
      (orElse (subitemId (eventFor 18041801957 ?col [3])) (pulseId (eventFor 18041801957 ?col [3]))) []
      = (Inr (Some sampleSubitem), [GetSubitemWithParent 900])"
    by (simp add: orElse_def sample_getSubitem)
  have resolved: "resolveParent sampleParseInt (eventFor 18041801957 ?col [3]) sampleSubitem
      = Some (ApiParent, JNum 77, JNum (feature (boards (config False))))"
    by (simp add: sample_resolve)
  have fetched_direct: "getSubitemWithParent (config False) sampleServer
      (pulseId (eventFor 18041802160 ?col [3])) []
      = (Inr (Some sampleSubitem), [GetSubitemWithParent 77])"
    by (simp add: sample_getSubitem)
  have parent: "parent_item sampleSubitem = Some (ParentItem ''77'' ''18041801957'') \<and>
      sampleParseInt (parent_board_id (ParentItem ''77'' ''18041801957''))
        = JNum (feature (boards (config False)))"
    by (simp add: sampleSubitem_def parseInt_samples)
  have linked: "getMainItemLinkedIds (config False) sampleParse sampleServer 3
        [GetSubitemWithParent 900] = (Inr [JNum 77], [GetSubitemWithParent 900, GetMainItemLinks 3]) \<and>
      getMainItemLinkedIds (config False) sampleParse sampleServer 3
        [GetSubitemWithParent 77] = (Inr [JNum 77], [GetSubitemWithParent 77, GetMainItemLinks 3]) \<and>
      includes_js [JNum 77] (JNum 77)"
    by (simp add: sample_read_3 includes_js_def sameValueZero_def)
  have a: "handleWebhookEvent (config False) sampleParseInt sampleParse sampleServer
      (WebhookEvent (eventFor 999 ?col [3])) []
     = (Inr (reply False EventFromUnexpectedBoard), []) \<and>
   handleWebhookEvent (config False) sampleParseInt sampleParse sampleServer
      (WebhookEvent (eventFor 18041801957 ''status'' [3])) []
     = (Inr (reply False EventForNonTargetColumn), []) \<and>
   handleWebhookEvent (config False) sampleParseInt sampleParse sampleServer
      (WebhookEvent (eventFor 18041801957 ?col [])) []
     = (Inr (reply True NoLinkedItemsToProcess), [])"
    using
      scope_rejection_results [where event = "eventFor 999 ?col [3]"
        and cfg = "config False" and JSON_parse = sampleParse and srv = sampleServer and t = "[]"
        and parseInt = sampleParseInt]
      scope_rejection_results [where event = "eventFor 18041801957 ''status'' [3]"
        and cfg = "config False" and JSON_parse = sampleParse and srv = sampleServer and t = "[]"
        and parseInt = sampleParseInt]
      scope_rejection_results [where event = "eventFor 18041801957 ?col []"
        and cfg = "config False" and JSON_parse = sampleParse and srv = sampleServer and t = "[]"
        and parseInt = sampleParseInt]
    by simp
  have b: "handleWebhookEvent_direct (config False) sampleParseInt sampleParse sampleServer
      (WebhookEvent (eventFor 18041801957 ?col [3])) []
     = (Inr (reply False EventFromUnexpectedBoard), []) \<and>
   handleWebhookEvent_direct (config False) sampleParseInt sampleParse sampleServer
      (WebhookEvent (eventFor 18041802160 ''status'' [3])) []
     = (Inr (reply False EventForNonTargetColumn), []) \<and>
   handleWebhookEvent_direct (config False) sampleParseInt sampleParse sampleServer
      (WebhookEvent (eventFor 18041802160 ?col [])) []
     = (Inr (reply True NoLinkedItemsToProcess), [])"
    using
      scope_rejection_results [where event = "eventFor 18041801957 ?col [3]"
        and cfg = "config False" and JSON_parse = sampleParse and srv = sampleServer and t = "[]"
        and parseInt = sampleParseInt]
      scope_rejection_results [where event = "eventFor 18041802160 ''status'' [3]"
        and cfg = "config False" and JSON_parse = sampleParse and srv = sampleServer and t = "[]"
        and parseInt = sampleParseInt]
      scope_rejection_results [where event = "eventFor 18041802160 ?col []"
        and cfg = "config False" and JSON_parse = sampleParse and srv = sampleServer and t = "[]"
        and parseInt = sampleParseInt]
    by simp
  have c: "handleWebhookEvent (config False) sampleParseInt sampleParse sampleServer
      (WebhookEvent (eventFor 18041801957 ?col [3])) []
     = (Inr \<lparr> challenge = None, success = Some True, message = Some (UpdatedSkipped 0 1),
              dryRunFlag = Some False \<rparr>,
        [GetSubitemWithParent 900, GetMainItemLinks 3])"
    using
      scope_rejection_results [where event = "eventFor 18041801957 ?col [3]"
        and cfg = "config False" and JSON_parse = sampleParse and srv = sampleServer and t = "[]"
        and parseInt = sampleParseInt and sub = sampleSubitem
        and ?t1.0 = "[GetSubitemWithParent 900]" and src = ApiParent and parentId = "JNum 77"
        and m = 3 and tr = "[GetSubitemWithParent 900]" and S = "[JNum 77]"
        and ?tr1.0 = "[GetSubitemWithParent 900, GetMainItemLinks 3]" and linkedParent = "JNum 77"
        and rest = "[]" and st = initialLoopState]
      fetched resolved linked
    by (simp add: Let_def initialLoopState_def)
  have d: "handleWebhookEvent_direct (config False) sampleParseInt sampleParse sampleServer
      (WebhookEvent (eventFor 18041802160 ?col [3])) []
     = (Inr \<lparr> challenge = None, success = Some True, message = Some (UpdatedSkipped 0 1),
              dryRunFlag = Some False \<rparr>,
        [GetSubitemWithParent 77, GetMainItemLinks 3])"
    using
      scope_rejection_results [where event = "eventFor 18041802160 ?col [3]"
        and cfg = "config False" and JSON_parse = sampleParse and srv = sampleServer and t = "[]"
        and parseInt = sampleParseInt and sub = sampleSubitem
        and ?t1.0 = "[GetSubitemWithParent 77]" and par = "ParentItem ''77'' ''18041801957''"
        and m = 3 and tr = "[GetSubitemWithParent 77]" and S = "[JNum 77]"
        and ?tr1.0 = "[GetSubitemWithParent 77, GetMainItemLinks 3]" and linkedParent = "JNum 77"
        and rest = "[]" and st = initialLoopState]
      fetched_direct parent linked
    by (simp add: Let_def initialLoopState_def parseInt_samples)
  show ?thesis using a b c d by simp
qed

section \<open>Resolving and validating the parent\<close>

text \<open>
  C9, as the specification states it, fails where the nested fields are partly filled: with
  no parent from the lookup, an event that carries \<^verbatim>\<open>parentItemId\<close> but no
  \<^verbatim>\<open>parentItemBoardId\<close> is resolved from its top-level \<^verbatim>\<open>pulseId\<close> and
  \<^verbatim>\<open>boardId\<close>, although a nested field is present.
\<close>

theorem partly_nested_event_uses_top_level:
  "parentItemId ((eventFor 18041801957 ''board_relation_mkw4vrjt'' [2])\<lparr>parentItemId := Some 7\<rparr>)
     = Some 7 \<and>
   resolveParent sampleParseInt ((eventFor 18041801957 ''board_relation_mkw4vrjt'' [2])\<lparr>parentItemId := Some 7\<rparr>)
       orphanSubitem
     = Some (EventTopLevel, JNum 77, JNum 18041801957)"
  by (simp add: resolveParent_def eventFor_def orphanSubitem_def)

text \<open>
  C9, amended. A parent returned by the lookup is used whatever the event carries. The
  nested fields are used exactly when the lookup returns no parent and both nested fields
  are present and not zero. The top-level fields are used exactly when the lookup returns
  no parent, the nested fields are not both present and not zero, and the top-level fields
  are both not zero.
\<close>

theorem resolveParent_priority:
  "(parent_item sub = Some p \<longrightarrow>
      resolveParent parseInt event sub
        = Some (ApiParent, parseInt (parent_id p), parseInt (parent_board_id p))) \<and>
   (resolveParent parseInt event sub = Some (EventNested, a, b) \<longleftrightarrow>
      parent_item sub = None \<and>
      (\<exists>x y. parentItemId event = Some x \<and> parentItemBoardId event = Some y \<and>
             x \<noteq> 0 \<and> y \<noteq> 0 \<and> a = JNum x \<and> b = JNum y)) \<and>
   (resolveParent parseInt event sub = Some (EventTopLevel, a, b) \<longleftrightarrow>
      parent_item sub = None \<and>
      \<not> (\<exists>x y. parentItemId event = Some x \<and> parentItemBoardId event = Some y \<and>
               x \<noteq> 0 \<and> y \<noteq> 0) \<and>
      pulseId event \<noteq> 0 \<and> boardId event \<noteq> 0 \<and>
      a = JNum (pulseId event) \<and> b = JNum (boardId event))"
  by (auto simp: resolveParent_def Let_def split: option.splits)

theorem resolveParent_priority_witness:
  "resolveParent sampleParseInt
      ((eventFor 18041801957 ''board_relation_mkw4vrjt'' [2])
         \<lparr>parentItemId := Some 8, parentItemBoardId := Some 18041801957\<rparr>)
      sampleSubitem
     = Some (ApiParent, JNum 77, JNum 18041801957) \<and>
   resolveParent sampleParseInt
      ((eventFor 18041801957 ''board_relation_mkw4vrjt'' [2])
         \<lparr>parentItemId := Some 8, parentItemBoardId := Some 18041801957\<rparr>)
      orphanSubitem
     = Some (EventNested, JNum 8, JNum 18041801957) \<and>
   resolveParent sampleParseInt
      ((eventFor 18041801957 ''board_relation_mkw4vrjt'' [2])
         \<lparr>parentItemId := Some 8, parentItemBoardId := Some 0\<rparr>)
      orphanSubitem
     = Some (EventTopLevel, JNum 77, JNum 18041801957)"
  using
    resolveParent_priority [where sub = sampleSubitem and p = "ParentItem ''77'' ''18041801957''"
      and event = "(eventFor 18041801957 ''board_relation_mkw4vrjt'' [2])
         \<lparr>parentItemId := Some 8, parentItemBoardId := Some 18041801957\<rparr>"]
    resolveParent_priority [where sub = orphanSubitem and a = "JNum 8" and b = "JNum 18041801957"
      and event = "(eventFor 18041801957 ''board_relation_mkw4vrjt'' [2])
         \<lparr>parentItemId := Some 8, parentItemBoardId := Some 18041801957\<rparr>"]
    resolveParent_priority [where sub = orphanSubitem and a = "JNum 77" and b = "JNum 18041801957"
      and event = "(eventFor 18041801957 ''board_relation_mkw4vrjt'' [2])
         \<lparr>parentItemId := Some 8, parentItemBoardId := Some 0\<rparr>"]
  by (simp add: sampleSubitem_def orphanSubitem_def parseInt_samples eventFor_def)

lemma isWrite_replicate_read [simp]:
  "filter isWrite (replicate k (GetMainItemLinks m)) = []"
  "filter isWrite (replicate k (GetSubitemWithParent m)) = []"
  by (induction k) simp_all

lemma getSubitemWithParent_trace:
  "\<exists>k. snd (getSubitemWithParent cfg srv sid t) = t @ replicate k (GetSubitemWithParent sid)"
proof -
  obtain k where "snd (mondayQuery cfg (subitemResponder srv) (GetSubitemWithParent sid) t)
      = t @ replicate k (GetSubitemWithParent sid)"
    using mondayQuery_trace by blast
  then have "snd (getSubitemWithParent cfg srv sid t) = t @ replicate k (GetSubitemWithParent sid)"
    by (cases "mondayQuery cfg (subitemResponder srv) (GetSubitemWithParent sid) t")
       (auto simp: getSubitemWithParent_def split: sum.splits)
  then show ?thesis by blast
qed

lemma getSubitemWithParent_no_write:
  "filter isWrite (snd (getSubitemWithParent cfg srv sid t)) = filter isWrite t"
  using getSubitemWithParent_trace [of cfg srv sid t] by auto

text \<open>
  C7. When an event is in scope, its subitem was fetched, and the parent board that was
  resolved is not the configured feature board, the handler answers once, before the loop
  over the main items, with \<^verbatim>\<open>success: false\<close> and the message
  \<^verbatim>\<open>Parent item not from expected Feature board\<close>; the only requests sent are the
  lookups of the subitem, so no write is attempted for any main item.
\<close>

theorem parent_board_mismatch_rejected:
  assumes "boardId event = subitem (boards cfg) \<or> boardId event = feature (boards cfg)"
    and "columnId event = subitemToMain (columns cfg)"
    and "linkedMainItemIds event \<noteq> []"
    and "getSubitemWithParent cfg srv (orElse (subitemId event) (pulseId event)) t
           = (Inr (Some sub), t1)"
    and "resolveParent parseInt event sub = Some (src, parentId, parentBoardId)"
    and "parentBoardId \<noteq> JNum (feature (boards cfg))"
  shows "handleWebhookEvent cfg parseInt JSON_parse srv (WebhookEvent event) t
           = (Inr (reply False ParentItemNotFromExpectedFeatureBoard), t1) \<and>
         success (reply False ParentItemNotFromExpectedFeatureBoard) = Some False \<and>
         (\<exists>k. t1 = t @ replicate k (GetSubitemWithParent (orElse (subitemId event) (pulseId event)))) \<and>
         filter isWrite t1 = filter isWrite t"
  using assms getSubitemWithParent_trace [of cfg srv "orElse (subitemId event) (pulseId event)" t]
    getSubitemWithParent_no_write [of cfg srv "orElse (subitemId event) (pulseId event)" t]
  by (auto simp: handleWebhookEvent_def reply_def)

theorem parent_board_mismatch_rejected_witness:
  "handleWebhookEvent (config False) sampleParseInt sampleParse strayServer
      (WebhookEvent (eventFor 18041801957 ''board_relation_mkw4vrjt'' [2, 3])) []
     = (Inr (reply False ParentItemNotFromExpectedFeatureBoard), [GetSubitemWithParent 900])"
proof -
  let ?event = "eventFor 18041801957 ''board_relation_mkw4vrjt'' [2, 3]"
  let ?sub = "SubitemWithParent ''900'' ''subtask'' (Some (ParentItem ''77'' ''12345'')) []"
  have scope: "boardId ?event = subitem (boards (config False)) \<or>
               boardId ?event = feature (boards (config False))"
    by simp
  have column: "columnId ?event = subitemToMain (columns (config False))"
    by simp
  have linked: "linkedMainItemIds ?event \<noteq> []"
    by simp
  have fetched: "getSubitemWithParent (config False) strayServer
      (orElse (subitemId ?event) (pulseId ?event)) [] = (Inr (Some ?sub), [GetSubitemWithParent 900])"
    by (simp add: orElse_def getSubitemWithParent_def strayServer_def sampleServer_def
        mondayQuery_first [of _ _ _ _ "[?sub]"])
  have resolved: "resolveParent sampleParseInt ?event ?sub = Some (ApiParent, JNum 77, JNum 12345)"
    by (simp add: resolveParent_def parseInt_samples)
  have other: "JNum 12345 \<noteq> JNum (feature (boards (config False)))"
    by simp
  show ?thesis
    using parent_board_mismatch_rejected [OF scope column linked fetched resolved other,
        where JSON_parse = sampleParse]
    by simp
qed

section \<open>The merged set\<close>

lemma includes_js_iff: "includes_js xs v \<longleftrightarrow> \<not> isReference v \<and> v \<in> set xs"
  by (auto simp: includes_js_def list_ex_iff sameValueZero_def)

lemma set_foldl_setAdd: "set (foldl setAdd acc xs) = set acc \<union> set xs"
  by (induction xs arbitrary: acc) (auto simp: setAdd_def includes_js_iff)

lemma distinct_foldl_setAdd:
  "distinct acc \<Longrightarrow> \<forall>x\<in>set xs. \<not> isReference x \<Longrightarrow> distinct (foldl setAdd acc xs)"
  by (induction xs arbitrary: acc) (auto simp: setAdd_def includes_js_iff)

lemma set_newSet: "set (newSet xs) = set xs"
  by (simp add: newSet_def set_foldl_setAdd)

lemma distinct_newSet: "\<forall>x\<in>set xs. \<not> isReference x \<Longrightarrow> distinct (newSet xs)"
  by (simp add: newSet_def distinct_foldl_setAdd)

lemma mondayQuery_Inr_sent:
  assumes "mondayQuery cfg respond req t = (Inr d, t')"
  shows "\<exists>k. t' = t @ req # replicate k req"
proof (cases "1 \<le> maxAttempts (retry cfg)")
  case True
  then show ?thesis using mondayQuery_sends [of cfg respond req t] assms by simp
next
  case False
  then have "mondayQuery cfg respond req t = (Inl UnknownError, t)"
    by (simp add: mondayQuery_def mondayQueryFrom_exhausted)
  then show ?thesis using assms by simp
qed

lemma updateMainItemLinks_sends:
  assumes "1 \<le> maxAttempts (retry cfg)"
  shows "\<exists>k. snd (updateMainItemLinks cfg srv m b ids t)
           = t @ replicate (Suc k) (UpdateMainItemLinks b m (mainToFeature (columns cfg)) ids)"
proof -
  obtain k where "snd (mondayQuery cfg (changeResponder srv)
      (UpdateMainItemLinks b m (mainToFeature (columns cfg)) ids) t)
      = t @ UpdateMainItemLinks b m (mainToFeature (columns cfg)) ids
          # replicate k (UpdateMainItemLinks b m (mainToFeature (columns cfg)) ids)"
    using mondayQuery_sends [OF assms] by blast
  then have "snd (updateMainItemLinks cfg srv m b ids t)
      = t @ replicate (Suc k) (UpdateMainItemLinks b m (mainToFeature (columns cfg)) ids)"
    by (cases "mondayQuery cfg (changeResponder srv)
          (UpdateMainItemLinks b m (mainToFeature (columns cfg)) ids) t")
       (auto simp: updateMainItemLinks_def split: sum.splits)
  then show ?thesis by blast
qed

lemma updateMainItemLinks_Inr_sent:
  assumes "updateMainItemLinks cfg srv m b ids t = (Inr u, t')"
  shows "\<exists>k. t' = t @ replicate (Suc k) (UpdateMainItemLinks b m (mainToFeature (columns cfg)) ids)"
proof -
  obtain d where "mondayQuery cfg (changeResponder srv)
      (UpdateMainItemLinks b m (mainToFeature (columns cfg)) ids) t = (Inr d, t')"
    using assms by (auto simp: updateMainItemLinks_def split: prod.splits sum.splits)
  from mondayQuery_Inr_sent [OF this] show ?thesis by simp
qed

lemma getMainItemLinkedIds_trace:
  "\<exists>k. snd (getMainItemLinkedIds cfg P srv m t) = t @ replicate k (GetMainItemLinks m)"
proof -
  obtain k where "snd (mondayQuery cfg (mainItemResponder srv) (GetMainItemLinks m) t)
      = t @ replicate k (GetMainItemLinks m)"
    using mondayQuery_trace by blast
  then have "snd (getMainItemLinkedIds cfg P srv m t) = t @ replicate k (GetMainItemLinks m)"
    by (cases "mondayQuery cfg (mainItemResponder srv) (GetMainItemLinks m) t")
       (auto simp: getMainItemLinkedIds_def split: sum.splits)
  then show ?thesis by blast
qed

lemma getMainItemLinkedIds_no_write:
  "filter isWrite (snd (getMainItemLinkedIds cfg P srv m t)) = filter isWrite t"
  using getMainItemLinkedIds_trace [of cfg P srv m t] by auto

lemma processMainItem_write:
  assumes "getMainItemLinkedIds cfg P srv m t = (Inr S, t1)" "\<not> includes_js S parentId"
    "\<not> dryRun cfg"
  shows "processMainItem cfg P srv parentId m (st, t) =
     (case updateMainItemLinks cfg srv m (main (boards cfg)) (newSet (S @ [parentId])) t1 of
        (Inl e, t2) \<Rightarrow> (st\<lparr>failureLog := failureLog st @ [(m, e)]\<rparr>, t2)
      | (Inr u, t2) \<Rightarrow> (st\<lparr>updatedCount := updatedCount st + 1\<rparr>, t2))"
  using assms by (auto simp: processMainItem_def split: prod.splits sum.splits)

lemma processMainItem_write_sent:
  assumes "getMainItemLinkedIds cfg P srv m t = (Inr S, t1)" "\<not> includes_js S parentId"
    "\<not> dryRun cfg" "1 \<le> maxAttempts (retry cfg)"
  shows "\<exists>k k'. snd (processMainItem cfg P srv parentId m (st, t)) =
     t @ replicate k (GetMainItemLinks m) @
       replicate (Suc k') (UpdateMainItemLinks (main (boards cfg)) m (mainToFeature (columns cfg))
          (newSet (S @ [parentId])))"
proof -
  let ?w = "updateMainItemLinks cfg srv m (main (boards cfg)) (newSet (S @ [parentId])) t1"
  obtain k where k: "t1 = t @ replicate k (GetMainItemLinks m)"
    using getMainItemLinkedIds_trace [of cfg P srv m t] assms(1) by auto
  obtain k' where k': "snd ?w = t1 @ replicate (Suc k')
      (UpdateMainItemLinks (main (boards cfg)) m (mainToFeature (columns cfg)) (newSet (S @ [parentId])))"
    using updateMainItemLinks_sends [OF assms(4)] by blast
  have "snd (processMainItem cfg P srv parentId m (st, t)) = snd ?w"
    unfolding processMainItem_write [OF assms(1-3)]
    by (cases ?w) (auto split: sum.splits)
  then show ?thesis using k k' by (metis append.assoc)
qed

text \<open>
  C4. For a list \<open>S\<close> of linked ids, in any order and with any duplicates, and a parent
  id \<open>c\<close> that is not in it, the merged list is duplicate-free and has exactly the
  elements of \<open>S\<close> and \<open>c\<close>; and when the read of a main item returns \<open>S\<close>, the
  requests of the iteration outside dry-run are the reads followed by writes that carry
  exactly this merged list.
\<close>

theorem merged_payload_is_union:
  assumes "c \<notin> set S"
  shows "set (newSet (map JNum S @ [JNum c])) = JNum ` (insert c (set S)) \<and>
         distinct (newSet (map JNum S @ [JNum c])) \<and>
         (getMainItemLinkedIds cfg P srv m t = (Inr (map JNum S), t1) \<and> \<not> dryRun cfg \<and>
          1 \<le> maxAttempts (retry cfg) \<longrightarrow>
            (\<exists>k k'. snd (processMainItem cfg P srv (JNum c) m (st, t)) =
               t @ replicate k (GetMainItemLinks m) @
                 replicate (Suc k') (UpdateMainItemLinks (main (boards cfg)) m
                    (mainToFeature (columns cfg)) (newSet (map JNum S @ [JNum c])))))"
proof -
  have a: "set (newSet (map JNum S @ [JNum c])) = JNum ` (insert c (set S))"
    by (simp add: set_newSet)
  have b: "distinct (newSet (map JNum S @ [JNum c]))"
    by (rule distinct_newSet) auto
  have n: "\<not> includes_js (map JNum S) (JNum c)"
    using assms by (auto simp: includes_js_iff)
  show ?thesis
    using a b processMainItem_write_sent [of cfg P srv m t "map JNum S" t1 "JNum c" st] n
    by blast
qed

theorem merged_payload_is_union_witness:
  "set (newSet (map JNum [9, 5, 9] @ [JNum 77])) = JNum ` {77, 9, 5} \<and>
   distinct (newSet (map JNum [9, 5, 9] @ [JNum 77])) \<and>
   (\<exists>k k'. snd (processMainItem (config False) sampleParse sampleServer (JNum 77) 2
                  (initialLoopState, [])) =
      replicate k (GetMainItemLinks 2) @
        replicate (Suc k') (UpdateMainItemLinks 18012438587 2 ''board_relation_mkw8vvdh''
           (newSet (map JNum [5] @ [JNum 77]))))"
proof -
  have h1: "(77::int) \<notin> set [9, 5, 9]" by simp
  have h2: "(77::int) \<notin> set [5]" by simp
  have read: "getMainItemLinkedIds (config False) sampleParse sampleServer 2 []
                = (Inr (map JNum [5]), [GetMainItemLinks 2])"
    by (simp add: sample_read_2)
  show ?thesis
    using merged_payload_is_union [OF h1]
      merged_payload_is_union [OF h2, where cfg = "config False" and P = sampleParse
        and srv = sampleServer and m = 2 and t = "[]" and ?t1.0 = "[GetMainItemLinks 2]"
        and st = initialLoopState]
      read
    by auto
qed

section \<open>Reading the relation column\<close>

lemma relation_value_total:
  "\<exists>ids. parseLinkedItemIds P raw = Inr ids"
  by (auto simp: parseLinkedItemIds_def split: option.splits sum.splits)

lemma linkedIdsOfItems_total:
  "\<exists>ids. linkedIdsOfItems cfg P items = Inr ids"
  by (auto simp: linkedIdsOfItems_def split: list.splits option.splits sum.splits)

lemma relationTryBlock_malformed:
  "P s = None \<Longrightarrow> relationTryBlock P s = Inl SyntaxError"
  "P s = Some v \<Longrightarrow> \<not> isArray (optProp v ''linkedPulseIds'') \<Longrightarrow> relationTryBlock P s = Inr None"
  by (simp_all add: relationTryBlock_def)

lemma getMainItemLinkedIds_fails_only_remotely:
  "fst (getMainItemLinkedIds cfg P srv m t) = Inl e \<Longrightarrow>
   fst (mondayQuery cfg (mainItemResponder srv) (GetMainItemLinks m) t) = Inl e"
proof -
  assume f: "fst (getMainItemLinkedIds cfg P srv m t) = Inl e"
  obtain r t' where q: "mondayQuery cfg (mainItemResponder srv) (GetMainItemLinks m) t = (r, t')"
    by (cases "mondayQuery cfg (mainItemResponder srv) (GetMainItemLinks m) t")
  show ?thesis
  proof (cases r)
    case (Inl e')
    then show ?thesis using f q by (simp add: getMainItemLinkedIds_def)
  next
    case (Inr items)
    obtain ids where "linkedIdsOfItems cfg P items = Inr ids"
      using linkedIdsOfItems_total by blast
    then show ?thesis using f q Inr by (simp add: getMainItemLinkedIds_def)
  qed
qed

lemma processMainItem_empty:
  assumes "getMainItemLinkedIds cfg P srv m t = (Inr [], t1)"
  shows "processMainItem cfg P srv parentId m (st, t) =
     (if dryRun cfg then (st\<lparr>updatedCount := updatedCount st + 1\<rparr>, t1)
      else (case updateMainItemLinks cfg srv m (main (boards cfg)) [parentId] t1 of
              (Inl e, t2) \<Rightarrow> (st\<lparr>failureLog := failureLog st @ [(m, e)]\<rparr>, t2)
            | (Inr u, t2) \<Rightarrow> (st\<lparr>updatedCount := updatedCount st + 1\<rparr>, t2)))"
  using assms
  by (auto simp: processMainItem_def includes_js_def newSet_def setAdd_def
      split: prod.splits sum.splits)

text \<open>
  C8. A relation value that is \<^verbatim>\<open>null\<close>, that \<^verbatim>\<open>JSON.parse\<close> rejects, or whose
  parsed value has no array under \<^verbatim>\<open>linkedPulseIds\<close> is read as the empty list, by
  \<^verbatim>\<open>parseLinkedItemIds\<close> and by \<^verbatim>\<open>getMainItemLinkedIds\<close>; no exception leaves
  \<^verbatim>\<open>parseLinkedItemIds\<close> for any value, and \<^verbatim>\<open>getMainItemLinkedIds\<close> fails only
  with an error of its remote call. An empty list makes the iteration count an update in
  dry-run and send a write of the parent alone otherwise.
\<close>

theorem malformed_relation_value_reads_empty:
  "parseLinkedItemIds P None = Inr [] \<and>
   (P s = None \<longrightarrow> parseLinkedItemIds P (Some s) = Inr []) \<and>
   (P s = Some v \<and> \<not> isArray (optProp v ''linkedPulseIds'') \<longrightarrow>
      parseLinkedItemIds P (Some s) = Inr []) \<and>
   (\<exists>ids. parseLinkedItemIds P raw = Inr ids) \<and>
   (mondayQuery cfg (mainItemResponder srv) (GetMainItemLinks m) t = (Inr (mainItem # rest), t1) \<and>
    find (\<lambda>col. col_id col = mainToFeature (columns cfg)) (column_values mainItem) = Some col \<and>
    (col_value col = None \<or>
     (\<exists>s. col_value col = Some s \<and>
          (P s = None \<or> (\<exists>v. P s = Some v \<and> \<not> isArray (optProp v ''linkedPulseIds'')))))
    \<longrightarrow> getMainItemLinkedIds cfg P srv m t = (Inr [], t1)) \<and>
   (fst (getMainItemLinkedIds cfg P srv m t) = Inl e \<longrightarrow>
      fst (mondayQuery cfg (mainItemResponder srv) (GetMainItemLinks m) t) = Inl e) \<and>
   (getMainItemLinkedIds cfg P srv m t = (Inr [], t1) \<longrightarrow>
      processMainItem cfg P srv parentId m (st, t) =
        (if dryRun cfg then (st\<lparr>updatedCount := updatedCount st + 1\<rparr>, t1)
         else (case updateMainItemLinks cfg srv m (main (boards cfg)) [parentId] t1 of
                 (Inl e, t2) \<Rightarrow> (st\<lparr>failureLog := failureLog st @ [(m, e)]\<rparr>, t2)
               | (Inr u, t2) \<Rightarrow> (st\<lparr>updatedCount := updatedCount st + 1\<rparr>, t2))))"
proof -
  have a: "parseLinkedItemIds P None = Inr []"
    by (simp add: parseLinkedItemIds_def)
  have b: "P s = None \<longrightarrow> parseLinkedItemIds P (Some s) = Inr []"
    by (simp add: parseLinkedItemIds_def relationTryBlock_malformed)
  have c: "P s = Some v \<and> \<not> isArray (optProp v ''linkedPulseIds'') \<longrightarrow>
      parseLinkedItemIds P (Some s) = Inr []"
    by (simp add: parseLinkedItemIds_def relationTryBlock_malformed)
  have d: "mondayQuery cfg (mainItemResponder srv) (GetMainItemLinks m) t = (Inr (mainItem # rest), t1) \<and>
    find (\<lambda>col. col_id col = mainToFeature (columns cfg)) (column_values mainItem) = Some col \<and>
    (col_value col = None \<or>
     (\<exists>s. col_value col = Some s \<and>
          (P s = None \<or> (\<exists>v. P s = Some v \<and> \<not> isArray (optProp v ''linkedPulseIds'')))))
    \<longrightarrow> getMainItemLinkedIds cfg P srv m t = (Inr [], t1)"
    by (auto simp: getMainItemLinkedIds_def linkedIdsOfItems_def relationTryBlock_malformed)
  show ?thesis
    using a b c d relation_value_total [of P raw]
      getMainItemLinkedIds_fails_only_remotely [of cfg P srv m t e]
      processMainItem_empty [of cfg P srv m t t1 parentId st]
    by blast
qed

theorem malformed_relation_value_reads_empty_witness:
  "parseLinkedItemIds sampleParse (Some ''<html>'') = Inr [] \<and>
   parseLinkedItemIds sampleParse (Some ''{}'') = Inr [] \<and>
   parseLinkedItemIds sampleParse (Some ''null'') = Inr [] \<and>
   getMainItemLinkedIds (config False) sampleParse sampleServer 5 []
     = (Inr [], [GetMainItemLinks 5])"
proof -
  have rejected: "sampleParse ''<html>'' = None"
    by (simp add: sampleParse_def linksTo5_def linksTo77_def)
  have object: "sampleParse ''{}'' = Some (JObj []) \<and> \<not> isArray (optProp (JObj []) ''linkedPulseIds'')"
    by (simp add: sampleParse_def linksTo5_def linksTo77_def)
  have null: "sampleParse ''null'' = Some JNull \<and> \<not> isArray (optProp JNull ''linkedPulseIds'')"
    by (simp add: sampleParse_def linksTo5_def linksTo77_def)
  have remote: "mondayQuery (config False) (mainItemResponder sampleServer) (GetMainItemLinks 5) []
      = (Inr (mainItemWith (Some ''<html>'') # []), [GetMainItemLinks 5])"
    by (simp add: sampleServer_def mondayQuery_first [of _ _ _ _ "[mainItemWith (Some ''<html>'')]"])
  have column: "find (\<lambda>col. col_id col = mainToFeature (columns (config False)))
      (column_values (mainItemWith (Some ''<html>'')))
      = Some (ColumnValue ''board_relation_mkw8vvdh'' (Some ''<html>'') ''board_relation'')"
    by (simp add: mainItemWith_def)
  show ?thesis
    using
      malformed_relation_value_reads_empty [where P = sampleParse and s = "''<html>''"
        and cfg = "config False" and srv = sampleServer and m = 5 and t = "[]"
        and mainItem = "mainItemWith (Some ''<html>'')" and rest = "[]"
        and ?t1.0 = "[GetMainItemLinks 5]"
        and col = "ColumnValue ''board_relation_mkw8vvdh'' (Some ''<html>'') ''board_relation''"]
      malformed_relation_value_reads_empty [where P = sampleParse and s = "''{}''" and v = "JObj []"]
      malformed_relation_value_reads_empty [where P = sampleParse and s = "''null''" and v = JNull]
      rejected object null remote column
    by simp
qed



section \<open>The loop over the main items\<close>

lemma processMainItem_read_failure:
  assumes "getMainItemLinkedIds cfg P srv m t = (Inl e, t1)"
  shows "processMainItem cfg P srv parentId m (st, t)
           = (st\<lparr>failureLog := failureLog st @ [(m, e)]\<rparr>, t1)"
  using assms by (simp add: processMainItem_def)

lemma processMainItem_write_failure:
  assumes "getMainItemLinkedIds cfg P srv m t = (Inr S, t1)" "\<not> includes_js S parentId"
    "\<not> dryRun cfg"
    "updateMainItemLinks cfg srv m (main (boards cfg)) (newSet (S @ [parentId])) t1 = (Inl e, t2)"
  shows "processMainItem cfg P srv parentId m (st, t)
           = (st\<lparr>failureLog := failureLog st @ [(m, e)]\<rparr>, t2)"
  using assms by (simp add: processMainItem_def)

lemma processMainItem_write_success:
  assumes "getMainItemLinkedIds cfg P srv m t = (Inr S, t1)" "\<not> includes_js S parentId"
    "\<not> dryRun cfg"
    "updateMainItemLinks cfg srv m (main (boards cfg)) (newSet (S @ [parentId])) t1 = (Inr u, t2)"
  shows "processMainItem cfg P srv parentId m (st, t)
           = (st\<lparr>updatedCount := updatedCount st + 1\<rparr>, t2)"
  using assms by (simp add: processMainItem_def)

lemma processMainItem_accounts:
  "updatedCount (fst (processMainItem cfg P srv parentId m (st, t)))
     + skippedCount (fst (processMainItem cfg P srv parentId m (st, t)))
     + length (failureLog (fst (processMainItem cfg P srv parentId m (st, t))))
   = updatedCount st + skippedCount st + length (failureLog st) + 1"
  by (auto simp: processMainItem_def split: prod.splits sum.splits)

lemma processItems_accounts:
  "updatedCount (fst (processItems cfg P srv parentId items (st, t)))
     + skippedCount (fst (processItems cfg P srv parentId items (st, t)))
     + length (failureLog (fst (processItems cfg P srv parentId items (st, t))))
   = updatedCount st + skippedCount st + length (failureLog st) + length items"
proof (induction items arbitrary: st t)
  case Nil
  then show ?case by simp
next
  case (Cons m ms)
  obtain st' t' where step: "processMainItem cfg P srv parentId m (st, t) = (st', t')"
    by (cases "processMainItem cfg P srv parentId m (st, t)")
  have "updatedCount st' + skippedCount st' + length (failureLog st')
          = updatedCount st + skippedCount st + length (failureLog st) + 1"
    using processMainItem_accounts [of cfg P srv parentId m st t] step by simp
  then show ?case using Cons.IH [of st' t'] step by simp
qed

lemma updateMainItemLinks_trace:
  "\<exists>k. snd (updateMainItemLinks cfg srv m b ids t)
           = t @ replicate k (UpdateMainItemLinks b m (mainToFeature (columns cfg)) ids)"
proof -
  obtain k where "snd (mondayQuery cfg (changeResponder srv)
      (UpdateMainItemLinks b m (mainToFeature (columns cfg)) ids) t)
      = t @ replicate k (UpdateMainItemLinks b m (mainToFeature (columns cfg)) ids)"
    using mondayQuery_trace by blast
  then have "snd (updateMainItemLinks cfg srv m b ids t)
      = t @ replicate k (UpdateMainItemLinks b m (mainToFeature (columns cfg)) ids)"
    by (cases "mondayQuery cfg (changeResponder srv)
          (UpdateMainItemLinks b m (mainToFeature (columns cfg)) ids) t")
       (auto simp: updateMainItemLinks_def split: sum.splits)
  then show ?thesis by blast
qed

lemma processMainItem_extends:
  "\<exists>new. snd (processMainItem cfg P srv parentId m (st, t)) = t @ new"
proof -
  obtain r t1 where read: "getMainItemLinkedIds cfg P srv m t = (r, t1)"
    by (cases "getMainItemLinkedIds cfg P srv m t")
  obtain k where k: "t1 = t @ replicate k (GetMainItemLinks m)"
    using getMainItemLinkedIds_trace [of cfg P srv m t] read by auto
  show ?thesis
  proof (cases r)
    case (Inl e)
    then show ?thesis using read k by (simp add: processMainItem_def)
  next
    case (Inr S)
    let ?w = "updateMainItemLinks cfg srv m (main (boards cfg)) (newSet (S @ [parentId])) t1"
    obtain k' where k': "snd ?w = t1 @ replicate k'
        (UpdateMainItemLinks (main (boards cfg)) m (mainToFeature (columns cfg)) (newSet (S @ [parentId])))"
      using updateMainItemLinks_trace by blast
    have "snd (processMainItem cfg P srv parentId m (st, t)) = t1 \<or>
          snd (processMainItem cfg P srv parentId m (st, t)) = snd ?w"
      using read Inr by (cases ?w) (auto simp: processMainItem_def split: sum.splits)
    then show ?thesis using k k' by auto
  qed
qed

lemma processItems_extends:
  "\<exists>new. snd (processItems cfg P srv parentId items (st, t)) = t @ new"
proof (induction items arbitrary: st t)
  case Nil
  then show ?case by simp
next
  case (Cons m ms)
  obtain st' t' where step: "processMainItem cfg P srv parentId m (st, t) = (st', t')"
    by (cases "processMainItem cfg P srv parentId m (st, t)")
  obtain new where "t' = t @ new"
    using processMainItem_extends [of cfg P srv parentId m st t] step by auto
  moreover obtain new' where "snd (processItems cfg P srv parentId ms (st', t')) = t' @ new'"
    using Cons.IH by blast
  ultimately show ?case using step by simp
qed

lemma processItems_all_linked:
  assumes "\<forall>m\<in>set items. \<forall>t'. \<exists>S. fst (getMainItemLinkedIds cfg P srv m t') = Inr S \<and>
             includes_js S parentId"
  shows "fst (processItems cfg P srv parentId items (st, t))
           = st\<lparr>skippedCount := skippedCount st + length items\<rparr> \<and>
         filter isWrite (snd (processItems cfg P srv parentId items (st, t))) = filter isWrite t"
  using assms
proof (induction items arbitrary: st t)
  case Nil
  then show ?case by simp
next
  case (Cons m ms)
  have "\<exists>S. fst (getMainItemLinkedIds cfg P srv m t) = Inr S \<and> includes_js S parentId"
    using Cons.prems by simp
  then obtain S where S: "fst (getMainItemLinkedIds cfg P srv m t) = Inr S" "includes_js S parentId"
    by blast
  obtain t1 where t1: "getMainItemLinkedIds cfg P srv m t = (Inr S, t1)"
    using S(1) by (cases "getMainItemLinkedIds cfg P srv m t") simp
  have w: "filter isWrite t1 = filter isWrite t"
    using getMainItemLinkedIds_no_write [of cfg P srv m t] t1 by simp
  have step: "processMainItem cfg P srv parentId m (st, t)
                = (st\<lparr>skippedCount := skippedCount st + 1\<rparr>, t1)"
    using processMainItem_skip [OF t1 S(2)] .
  have rest: "\<forall>m\<in>set ms. \<forall>t'. \<exists>S. fst (getMainItemLinkedIds cfg P srv m t') = Inr S \<and>
                includes_js S parentId"
    using Cons.prems by simp
  show ?case
    using Cons.IH [OF rest, of "st\<lparr>skippedCount := skippedCount st + 1\<rparr>" t1] step w
    by simp
qed

text \<open>
  C3. When the list read for a main item already contains the parent id, the iteration
  sends no write, in dry-run or not, and adds one to the skipped count and nothing to the
  updated count. When this is so for every main item of the list at every time, the whole
  loop sends no write and counts every item as skipped, however often it is run.
\<close>

theorem already_linked_is_skipped:
  "(getMainItemLinkedIds cfg P srv m t = (Inr S, t1) \<and> includes_js S parentId \<longrightarrow>
      processMainItem cfg P srv parentId m (st, t)
        = (st\<lparr>skippedCount := skippedCount st + 1\<rparr>, t1) \<and>
      filter isWrite t1 = filter isWrite t) \<and>
   ((\<forall>m\<in>set items. \<forall>t'. \<exists>S. fst (getMainItemLinkedIds cfg P srv m t') = Inr S \<and>
        includes_js S parentId) \<longrightarrow>
      fst (processItems cfg P srv parentId items (st, t))
        = st\<lparr>skippedCount := skippedCount st + length items\<rparr> \<and>
      filter isWrite (snd (processItems cfg P srv parentId items (st, t))) = filter isWrite t)"
  using processMainItem_skip [of cfg P srv m t S t1 parentId st]
    getMainItemLinkedIds_no_write [of cfg P srv m t]
    processItems_all_linked [of items cfg P srv parentId st t]
  by auto

theorem already_linked_is_skipped_witness:
  "processItems (config False) sampleParse sampleServer (JNum 77) [3, 3] (initialLoopState, [])
     = (initialLoopState\<lparr>skippedCount := 2\<rparr>, [GetMainItemLinks 3, GetMainItemLinks 3])"
proof -
  have linked: "\<forall>m\<in>set [3, 3]. \<forall>t'. \<exists>S.
      fst (getMainItemLinkedIds (config False) sampleParse sampleServer m t') = Inr S \<and>
      includes_js S (JNum 77)"
    by (simp add: sample_read_3 includes_js_def sameValueZero_def)
  have one: "getMainItemLinkedIds (config False) sampleParse sampleServer 3 []
               = (Inr [JNum 77], [GetMainItemLinks 3]) \<and> includes_js [JNum 77] (JNum 77)"
    by (simp add: sample_read_3 includes_js_def sameValueZero_def)
  have two: "getMainItemLinkedIds (config False) sampleParse sampleServer 3 [GetMainItemLinks 3]
               = (Inr [JNum 77], [GetMainItemLinks 3, GetMainItemLinks 3]) \<and>
             includes_js [JNum 77] (JNum 77)"
    by (simp add: sample_read_3 includes_js_def sameValueZero_def)
  show ?thesis
    using already_linked_is_skipped [where cfg = "config False" and P = sampleParse and srv = sampleServer and m = 3
        and t = "[]" and S = "[JNum 77]" and ?t1.0 = "[GetMainItemLinks 3]" and parentId = "JNum 77"
        and st = initialLoopState and items = "[3, 3]"]
      already_linked_is_skipped [where cfg = "config False" and P = sampleParse and srv = sampleServer and m = 3
        and t = "[GetMainItemLinks 3]" and S = "[JNum 77]"
        and ?t1.0 = "[GetMainItemLinks 3, GetMainItemLinks 3]" and parentId = "JNum 77"
        and st = "initialLoopState\<lparr>skippedCount := skippedCount initialLoopState + 1\<rparr>"]
      linked one two
    by (simp add: initialLoopState_def)
qed

lemma processMainItem_dry_run:
  assumes "getMainItemLinkedIds cfg P srv m t = (Inr S, t1)" "\<not> includes_js S parentId"
    "dryRun cfg"
  shows "processMainItem cfg P srv parentId m (st, t)
           = (st\<lparr>updatedCount := updatedCount st + 1\<rparr>, t1)"
  using assms by (simp add: processMainItem_def)

text \<open>
  C6, as the specification states it, fails in dry-run: with main item 1 failing to be read
  and main item 2 not yet linked, the event is answered with \<^verbatim>\<open>success: true\<close> and one
  item counted as updated, and no write was sent for that item.
\<close>

theorem dry_run_counts_update_without_write:
  "handleWebhookEvent (config True) sampleParseInt sampleParse sampleServer
      (WebhookEvent (eventFor 18041801957 ''board_relation_mkw4vrjt'' [1, 2])) []
     = (Inr \<lparr> challenge = None, success = Some True, message = Some (UpdatedSkipped 1 0),
              dryRunFlag = Some True \<rparr>,
        [GetSubitemWithParent 900,
         GetMainItemLinks 1, GetMainItemLinks 1, GetMainItemLinks 1,
         GetMainItemLinks 2]) \<and>
   filter isWrite
     [GetSubitemWithParent 900,
      GetMainItemLinks 1, GetMainItemLinks 1, GetMainItemLinks 1,
      GetMainItemLinks 2] = []"
  by (simp add: handleWebhookEvent_def finish_def orElse_def sample_getSubitem sample_resolve
      processMainItem_def sample_read_1 sample_read_2 includes_js_def sameValueZero_def
      initialLoopState_def)

text \<open>
  C6, amended. For an event that is in scope, whose subitem was fetched and whose parent is
  on the feature board, the handler answers \<^verbatim>\<open>success: true\<close> with the two counts of
  the loop, whatever happens to the single items. Every item is either counted as updated,
  counted as skipped, or logged as failed. An item whose read fails, or whose write fails,
  leaves both counts as they were and the loop goes on with the items after it. Outside
  dry-run, an item whose write succeeds is counted as updated, and its write requests are
  part of what the loop has sent at its end. In dry-run, an item that is not yet linked is
  counted as updated and no write is sent for it.
\<close>

theorem per_item_failure_is_isolated:
  assumes "boardId event = subitem (boards cfg) \<or> boardId event = feature (boards cfg)"
    and "columnId event = subitemToMain (columns cfg)"
    and "linkedMainItemIds event \<noteq> []"
    and "getSubitemWithParent cfg srv (orElse (subitemId event) (pulseId event)) t
           = (Inr (Some sub), t1)"
    and "resolveParent parseInt event sub = Some (src, parentId, JNum (feature (boards cfg)))"
  shows
    "(let final = processItems cfg P srv parentId (linkedMainItemIds event) (initialLoopState, t1)
      in handleWebhookEvent cfg parseInt P srv (WebhookEvent event) t
           = (Inr \<lparr> challenge = None, success = Some True,
                    message = Some (UpdatedSkipped (updatedCount (fst final))
                                      (skippedCount (fst final))),
                    dryRunFlag = Some (dryRun cfg) \<rparr>, snd final) \<and>
         updatedCount (fst final) + skippedCount (fst final) + length (failureLog (fst final))
           = length (linkedMainItemIds event)) \<and>
     (getMainItemLinkedIds cfg P srv m tr = (Inl e, tr1) \<longrightarrow>
        processItems cfg P srv parentId (m # rest) (st, tr)
          = processItems cfg P srv parentId rest
              (st\<lparr>failureLog := failureLog st @ [(m, e)]\<rparr>, tr1)) \<and>
     (getMainItemLinkedIds cfg P srv m tr = (Inr S, tr1) \<and> \<not> includes_js S parentId \<and>
      \<not> dryRun cfg \<and>
      updateMainItemLinks cfg srv m (main (boards cfg)) (newSet (S @ [parentId])) tr1
        = (Inl e, tr2) \<longrightarrow>
        processItems cfg P srv parentId (m # rest) (st, tr)
          = processItems cfg P srv parentId rest
              (st\<lparr>failureLog := failureLog st @ [(m, e)]\<rparr>, tr2)) \<and>
     (getMainItemLinkedIds cfg P srv m tr = (Inr S, tr1) \<and> \<not> includes_js S parentId \<and>
      \<not> dryRun cfg \<and>
      updateMainItemLinks cfg srv m (main (boards cfg)) (newSet (S @ [parentId])) tr1
        = (Inr u, tr2) \<longrightarrow>
        processItems cfg P srv parentId (m # rest) (st, tr)
          = processItems cfg P srv parentId rest
              (st\<lparr>updatedCount := updatedCount st + 1\<rparr>, tr2) \<and>
        (\<exists>k new. snd (processItems cfg P srv parentId (m # rest) (st, tr))
           = tr1 @ replicate (Suc k) (UpdateMainItemLinks (main (boards cfg)) m
                      (mainToFeature (columns cfg)) (newSet (S @ [parentId]))) @ new)) \<and>
     (getMainItemLinkedIds cfg P srv m tr = (Inr S, tr1) \<and> \<not> includes_js S parentId \<and>
      dryRun cfg \<longrightarrow>
        processItems cfg P srv parentId (m # rest) (st, tr)
          = processItems cfg P srv parentId rest
              (st\<lparr>updatedCount := updatedCount st + 1\<rparr>, tr1) \<and>
        filter isWrite tr1 = filter isWrite tr)"
proof -
  let ?final = "processItems cfg P srv parentId (linkedMainItemIds event) (initialLoopState, t1)"
  have answer: "handleWebhookEvent cfg parseInt P srv (WebhookEvent event) t
      = (Inr \<lparr> challenge = None, success = Some True,
               message = Some (UpdatedSkipped (updatedCount (fst ?final)) (skippedCount (fst ?final))),
               dryRunFlag = Some (dryRun cfg) \<rparr>, snd ?final)"
    using assms by (auto simp: handleWebhookEvent_def finish_def)
  have counts: "updatedCount (fst ?final) + skippedCount (fst ?final) + length (failureLog (fst ?final))
      = length (linkedMainItemIds event)"
    using processItems_accounts [of cfg P srv parentId "linkedMainItemIds event" initialLoopState t1]
    by (simp add: initialLoopState_def)
  have readFails: "getMainItemLinkedIds cfg P srv m tr = (Inl e, tr1) \<longrightarrow>
        processItems cfg P srv parentId (m # rest) (st, tr)
          = processItems cfg P srv parentId rest
              (st\<lparr>failureLog := failureLog st @ [(m, e)]\<rparr>, tr1)"
    by (simp add: processMainItem_read_failure)
  have writeFails: "getMainItemLinkedIds cfg P srv m tr = (Inr S, tr1) \<and> \<not> includes_js S parentId \<and>
      \<not> dryRun cfg \<and>
      updateMainItemLinks cfg srv m (main (boards cfg)) (newSet (S @ [parentId])) tr1
        = (Inl e, tr2) \<longrightarrow>
        processItems cfg P srv parentId (m # rest) (st, tr)
          = processItems cfg P srv parentId rest
              (st\<lparr>failureLog := failureLog st @ [(m, e)]\<rparr>, tr2)"
    by (simp add: processMainItem_write_failure)
  have writeDone: "getMainItemLinkedIds cfg P srv m tr = (Inr S, tr1) \<and> \<not> includes_js S parentId \<and>
      \<not> dryRun cfg \<and>
      updateMainItemLinks cfg srv m (main (boards cfg)) (newSet (S @ [parentId])) tr1
        = (Inr u, tr2) \<longrightarrow>
        processItems cfg P srv parentId (m # rest) (st, tr)
          = processItems cfg P srv parentId rest
              (st\<lparr>updatedCount := updatedCount st + 1\<rparr>, tr2) \<and>
        (\<exists>k new. snd (processItems cfg P srv parentId (m # rest) (st, tr))
           = tr1 @ replicate (Suc k) (UpdateMainItemLinks (main (boards cfg)) m
                      (mainToFeature (columns cfg)) (newSet (S @ [parentId]))) @ new)"
  proof (intro impI, elim conjE)
    assume read: "getMainItemLinkedIds cfg P srv m tr = (Inr S, tr1)"
      and new: "\<not> includes_js S parentId" and wet: "\<not> dryRun cfg"
      and written: "updateMainItemLinks cfg srv m (main (boards cfg)) (newSet (S @ [parentId])) tr1
                   = (Inr u, tr2)"
    have step: "processItems cfg P srv parentId (m # rest) (st, tr)
          = processItems cfg P srv parentId rest
              (st\<lparr>updatedCount := updatedCount st + 1\<rparr>, tr2)"
      by (simp add: processMainItem_write_success [OF read new wet written])
    obtain k where k: "tr2 = tr1 @ replicate (Suc k) (UpdateMainItemLinks (main (boards cfg)) m
                      (mainToFeature (columns cfg)) (newSet (S @ [parentId])))"
      using updateMainItemLinks_Inr_sent [OF written] by blast
    obtain new where "snd (processItems cfg P srv parentId rest
              (st\<lparr>updatedCount := updatedCount st + 1\<rparr>, tr2)) = tr2 @ new"
      using processItems_extends by blast
    then have "snd (processItems cfg P srv parentId (m # rest) (st, tr))
           = tr1 @ replicate (Suc k) (UpdateMainItemLinks (main (boards cfg)) m
                      (mainToFeature (columns cfg)) (newSet (S @ [parentId]))) @ new"
      using step k by simp
    then show "processItems cfg P srv parentId (m # rest) (st, tr)
          = processItems cfg P srv parentId rest
              (st\<lparr>updatedCount := updatedCount st + 1\<rparr>, tr2) \<and>
        (\<exists>k new. snd (processItems cfg P srv parentId (m # rest) (st, tr))
           = tr1 @ replicate (Suc k) (UpdateMainItemLinks (main (boards cfg)) m
                      (mainToFeature (columns cfg)) (newSet (S @ [parentId]))) @ new)"
      using step by blast
  qed
  have dry: "getMainItemLinkedIds cfg P srv m tr = (Inr S, tr1) \<and> \<not> includes_js S parentId \<and>
      dryRun cfg \<longrightarrow>
        processItems cfg P srv parentId (m # rest) (st, tr)
          = processItems cfg P srv parentId rest
              (st\<lparr>updatedCount := updatedCount st + 1\<rparr>, tr1) \<and>
        filter isWrite tr1 = filter isWrite tr"
    using getMainItemLinkedIds_no_write [of cfg P srv m tr]
    by (auto simp: processMainItem_dry_run)
  show ?thesis
    unfolding Let_def using answer counts readFails writeFails writeDone dry by blast
qed

theorem per_item_failure_is_isolated_witness:
  "handleWebhookEvent (config False) sampleParseInt sampleParse sampleServer
      (WebhookEvent (eventFor 18041801957 ''board_relation_mkw4vrjt'' [1, 2])) []
     = (Inr \<lparr> challenge = None, success = Some True, message = Some (UpdatedSkipped 1 0),
              dryRunFlag = Some False \<rparr>,
        [GetSubitemWithParent 900,
         GetMainItemLinks 1, GetMainItemLinks 1, GetMainItemLinks 1,
         GetMainItemLinks 2,
         UpdateMainItemLinks 18012438587 2 ''board_relation_mkw8vvdh'' [JNum 5, JNum 77]]) \<and>
   handleWebhookEvent (config False) sampleParseInt sampleParse readOnlyServer
      (WebhookEvent (eventFor 18041801957 ''board_relation_mkw4vrjt'' [2, 3])) []
     = (Inr \<lparr> challenge = None, success = Some True, message = Some (UpdatedSkipped 0 1),
              dryRunFlag = Some False \<rparr>,
        [GetSubitemWithParent 900,
         GetMainItemLinks 2,
         UpdateMainItemLinks 18012438587 2 ''board_relation_mkw8vvdh'' [JNum 5, JNum 77],
         UpdateMainItemLinks 18012438587 2 ''board_relation_mkw8vvdh'' [JNum 5, JNum 77],
         UpdateMainItemLinks 18012438587 2 ''board_relation_mkw8vvdh'' [JNum 5, JNum 77],
         GetMainItemLinks 3]) \<and>
   handleWebhookEvent (config True) sampleParseInt sampleParse sampleServer
      (WebhookEvent (eventFor 18041801957 ''board_relation_mkw4vrjt'' [2, 3])) []
     = (Inr \<lparr> challenge = None, success = Some True, message = Some (UpdatedSkipped 1 1),
              dryRunFlag = Some True \<rparr>,
        [GetSubitemWithParent 900, GetMainItemLinks 2, GetMainItemLinks 3])"
proof -
  let ?event = "eventFor 18041801957 ''board_relation_mkw4vrjt'' [1, 2]"
  let ?event' = "eventFor 18041801957 ''board_relation_mkw4vrjt'' [2, 3]"
  have scope: "boardId ?event = subitem (boards (config False)) \<or>
               boardId ?event = feature (boards (config False))"
    by simp
  have column: "columnId ?event = subitemToMain (columns (config False))"
    by simp
  have linked: "linkedMainItemIds ?event \<noteq> []"
    by simp
  have fetched: "getSubitemWithParent (config False) sampleServer
      (orElse (subitemId ?event) (pulseId ?event)) []
      = (Inr (Some sampleSubitem), [GetSubitemWithParent 900])"
    by (simp add: orElse_def sample_getSubitem)
  have resolved: "resolveParent sampleParseInt ?event sampleSubitem
      = Some (ApiParent, JNum 77, JNum (feature (boards (config False))))"
    by (simp add: sample_resolve)
  have scope': "boardId ?event' = subitem (boards (config False)) \<or>
                boardId ?event' = feature (boards (config False))"
    by simp
  have column': "columnId ?event' = subitemToMain (columns (config False))"
    by simp
  have linked': "linkedMainItemIds ?event' \<noteq> []"
    by simp
  have fetched': "getSubitemWithParent (config False) readOnlyServer
      (orElse (subitemId ?event') (pulseId ?event')) []
      = (Inr (Some sampleSubitem), [GetSubitemWithParent 900])"
    by (simp add: orElse_def readOnly_getSubitem sample_getSubitem)
  have resolved': "resolveParent sampleParseInt ?event' sampleSubitem
      = Some (ApiParent, JNum 77, JNum (feature (boards (config False))))"
    by (simp add: sample_resolve)
  have first: "handleWebhookEvent (config False) sampleParseInt sampleParse sampleServer (WebhookEvent ?event) []
     = (Inr \<lparr> challenge = None, success = Some True, message = Some (UpdatedSkipped 1 0),
              dryRunFlag = Some False \<rparr>,
        [GetSubitemWithParent 900,
         GetMainItemLinks 1, GetMainItemLinks 1, GetMainItemLinks 1,
         GetMainItemLinks 2,
         UpdateMainItemLinks 18012438587 2 ''board_relation_mkw8vvdh'' [JNum 5, JNum 77]])"
    using per_item_failure_is_isolated [OF scope column linked fetched resolved,
        where P = sampleParse]
    by (simp add: Let_def processMainItem_def sample_read_1 sample_read_2 sample_write
        includes_js_def sameValueZero_def newSet_def setAdd_def initialLoopState_def)
  have second: "handleWebhookEvent (config False) sampleParseInt sampleParse readOnlyServer (WebhookEvent ?event') []
     = (Inr \<lparr> challenge = None, success = Some True, message = Some (UpdatedSkipped 0 1),
              dryRunFlag = Some False \<rparr>,
        [GetSubitemWithParent 900,
         GetMainItemLinks 2,
         UpdateMainItemLinks 18012438587 2 ''board_relation_mkw8vvdh'' [JNum 5, JNum 77],
         UpdateMainItemLinks 18012438587 2 ''board_relation_mkw8vvdh'' [JNum 5, JNum 77],
         UpdateMainItemLinks 18012438587 2 ''board_relation_mkw8vvdh'' [JNum 5, JNum 77],
         GetMainItemLinks 3])"
    using per_item_failure_is_isolated [OF scope' column' linked' fetched' resolved',
        where P = sampleParse]
    by (simp add: Let_def processMainItem_def readOnly_read sample_read_2 sample_read_3
        readOnly_write includes_js_def sameValueZero_def newSet_def setAdd_def
        initialLoopState_def)
  have scope'': "boardId ?event' = subitem (boards (config True)) \<or>
                 boardId ?event' = feature (boards (config True))"
    by simp
  have column'': "columnId ?event' = subitemToMain (columns (config True))"
    by simp
  have fetched'': "getSubitemWithParent (config True) sampleServer
      (orElse (subitemId ?event') (pulseId ?event')) []
      = (Inr (Some sampleSubitem), [GetSubitemWithParent 900])"
    by (simp add: orElse_def sample_getSubitem)
  have resolved'': "resolveParent sampleParseInt ?event' sampleSubitem
      = Some (ApiParent, JNum 77, JNum (feature (boards (config True))))"
    by (simp add: sample_resolve)
  have third: "handleWebhookEvent (config True) sampleParseInt sampleParse sampleServer
      (WebhookEvent ?event') []
     = (Inr \<lparr> challenge = None, success = Some True, message = Some (UpdatedSkipped 1 1),
              dryRunFlag = Some True \<rparr>,
        [GetSubitemWithParent 900, GetMainItemLinks 2, GetMainItemLinks 3])"
    using per_item_failure_is_isolated [OF scope'' column'' linked' fetched'' resolved'',
        where P = sampleParse]
    by (simp add: Let_def processMainItem_def sample_read_2 sample_read_3
        includes_js_def sameValueZero_def initialLoopState_def)
  show ?thesis using first second third by simp
qed

end
